theory Spec2Isabelle
  imports Complex_Main "HOL-Library.AList" "HOL-Library.Sublist"
begin

section \<open>Python values, exceptions and dictionaries\<close>

text \<open>
  The calculator of \<^verbatim>\<open>ase/calculators/vasp.py\<close> is a Python object whose attributes hold
  dynamically typed values. Values are embedded in one datatype. Numbers (Python's \<^verbatim>\<open>int\<close>
  and \<^verbatim>\<open>float\<close>, which compare by numeric value) are the rationals they denote; no
  floating-point rounding is modelled.
\<close>

datatype pyval =
    PNone
  | PBool bool
  | PNum rat
  | PStr string
  | PList "pyval list"
  | PDict "(pyval \<times> pyval) list"

datatype error =
    TypeError string
  | ValueError string
  | AttributeError string
  | IndexError
  | KeyError string
  | NameError string
  | RuntimeError string
  | IOError string
  | NotImplementedError
  | PropertyNotImplementedError

text \<open>
  A dictionary with string keys is an association list in insertion order. \<^verbatim>\<open>k in d\<close> is
  \<open>has_key\<close>, \<^verbatim>\<open>d[k] = v\<close> is \<open>AList.update\<close> (in place for a present key, appended
  otherwise), and \<^verbatim>\<open>d1 == d2\<close> compares the two lookups on every key of either side.
\<close>

type_synonym params = "(string \<times> pyval) list"

definition has_key :: "('k \<times> 'v) list \<Rightarrow> 'k \<Rightarrow> bool" where
  "has_key d k = (map_of d k \<noteq> None)"

definition dict_eq :: "params \<Rightarrow> params \<Rightarrow> bool" where
  "dict_eq d1 d2 = list_all (\<lambda>k. map_of d1 k = map_of d2 k) (map fst d1 @ map fst d2)"

definition getitem :: "params \<Rightarrow> string \<Rightarrow> error + pyval" where
  "getitem d k = (case map_of d k of None \<Rightarrow> Inl (KeyError k) | Some v \<Rightarrow> Inr v)"

text \<open>Truth value of an object, as \<^verbatim>\<open>if x:\<close> and \<^verbatim>\<open>not x\<close> take it.\<close>

fun py_truthy :: "pyval \<Rightarrow> bool" where
  "py_truthy PNone = False"
| "py_truthy (PBool b) = b"
| "py_truthy (PNum r) = (r \<noteq> 0)"
| "py_truthy (PStr s) = (s \<noteq> [])"
| "py_truthy (PList xs) = (xs \<noteq> [])"
| "py_truthy (PDict d) = (d \<noteq> [])"

text \<open>Reading an attribute that was never assigned raises \<^verbatim>\<open>AttributeError\<close>.\<close>

definition attr :: "string \<Rightarrow> 'a option \<Rightarrow> error + 'a" where
  "attr name a = (case a of None \<Rightarrow> Inl (AttributeError name) | Some v \<Rightarrow> Inr v)"

subsection \<open>Strings\<close>

definition lower_char :: "char \<Rightarrow> char" where
  "lower_char c =
     (case map_of (zip ''ABCDEFGHIJKLMNOPQRSTUVWXYZ'' ''abcdefghijklmnopqrstuvwxyz'') c of
        Some d \<Rightarrow> d
      | None \<Rightarrow> c)"

definition str_lower :: "string \<Rightarrow> string" where
  "str_lower s = map lower_char s"

text \<open>\<^verbatim>\<open>x.lower()\<close>: only strings have the method.\<close>

fun py_lower :: "pyval \<Rightarrow> error + pyval" where
  "py_lower (PStr s) = Inr (PStr (str_lower s))"
| "py_lower v = Inl (AttributeError ''lower'')"

text \<open>\<^verbatim>\<open>sep.join(xs)\<close>.\<close>

fun py_join :: "string \<Rightarrow> string list \<Rightarrow> string" where
  "py_join sep [] = []"
| "py_join sep [x] = x"
| "py_join sep (x # y # ys) = x @ sep @ py_join sep (y # ys)"

section \<open>The parameter registry\<close>

text \<open>The key lists of the module (lines 42 to 311), in source order.\<close>

definition float_keys :: "string list" where
  "float_keys =
    [''aexx'', ''aggac'', ''aggax'', ''aldac'', ''amin'', ''amix'', ''amix_mag'',
     ''bmix'', ''bmix_mag'', ''cshift'', ''deper'', ''ebreak'', ''efield'',
     ''emax'', ''emin'', ''enaug'', ''encut'', ''encutgw'', ''encutfock'',
     ''hfscreen'', ''kspacing'', ''potim'', ''nelect'', ''param1'', ''param2'',
     ''pomass'', ''pstress'', ''sigma'', ''spring'', ''time'', ''weimin'',
     ''zab_vdw'', ''zval'', ''jacobian'', ''ddr'', ''drotmax'', ''dfnmin'',
     ''dfnmax'', ''stol'', ''sdr'', ''maxmove'', ''invcurve'', ''timestep'',
     ''sdalpha'', ''ftimemax'', ''ftimedec'', ''ftimeinc'', ''falpha'',
     ''falphadec'', ''clz'', ''vdw_radius'', ''vdw_scaling'', ''vdw_d'',
     ''vdw_cnradius'', ''vdw_s6'', ''vdw_s8'', ''vdw_sr'', ''vdw_a1'', ''vdw_a2'',
     ''eb_k'', ''tau'']"

definition exp_keys :: "string list" where
  "exp_keys =
    [''ediff'', ''ediffg'', ''symprec'', ''fdstep'']"

definition string_keys :: "string list" where
  "string_keys =
    [''algo'', ''gga'', ''metagga'', ''prec'', ''system'', ''tebeg'', ''teend'',
     ''precfock'']"

definition int_keys :: "string list" where
  "int_keys =
    [''ialgo'', ''ibrion'', ''icharg'', ''idipol'', ''images'', ''iniwav'',
     ''isif'', ''ismear'', ''ispin'', ''istart'', ''isym'', ''iwavpr'', ''kpar'',
     ''ldauprint'', ''ldautype'', ''lmaxmix'', ''lorbit'', ''maxmix'', ''ngx'',
     ''ngxf'', ''ngy'', ''ngyf'', ''ngz'', ''ngzf'', ''nbands'', ''nblk'',
     ''nbmod'', ''nelm'', ''nelmdl'', ''nelmin'', ''nfree'', ''nkred'',
     ''nkredx'', ''nkredy'', ''nkredz'', ''nomega'', ''nomegar'', ''npar'',
     ''nsim'', ''nsw'', ''nupdown'', ''nwrite'', ''smass'', ''vdwgr'', ''vdwrn'',
     ''voskown'', ''ichain'', ''iopt'', ''snl'', ''lbfgsmem'', ''fnmin'',
     ''icorelevel'', ''clnt'', ''cln'', ''cll'', ''ivdw'', ''nbandsgw'',
     ''nbandso'', ''nbandsv'', ''ncore'', ''mdalgo'', ''nedos'', ''turbo'']"

definition bool_keys :: "string list" where
  "bool_keys =
    [''addgrid'', ''kgamma'', ''laechg'', ''lasph'', ''lasync'', ''lcharg'',
     ''lcorr'', ''ldau'', ''ldiag'', ''ldipol'', ''lelf'', ''lepsilon'',
     ''lhfcalc'', ''loptics'', ''lpard'', ''lplane'', ''lscalapack'', ''lscalu'',
     ''lsepb'', ''lsepk'', ''lthomas'', ''luse_vdw'', ''lvdw'', ''lvhar'',
     ''lvtot'', ''lwave'', ''lclimb'', ''ltangentold'', ''ldneb'', ''lnebcell'',
     ''lglobal'', ''llineopt'', ''lbeefens'', ''lbeefbas'', ''lcalcpol'',
     ''lcalceps'', ''lvdw'', ''lvdw_ewald'', ''lspectral'', ''lrpa'',
     ''lwannier90'', ''lsorbit'', ''lsol'', ''lautoscale'']"

definition list_keys :: "string list" where
  "list_keys =
    [''dipol'', ''eint'', ''ferwe'', ''ferdo'', ''iband'', ''magmom'', ''kpuse'',
     ''ropt'', ''rwigs'', ''ldauu'', ''ldaul'', ''ldauj'', ''random_seed'',
     ''vdw_c6'', ''vdw_c6au'', ''vdw_r0'', ''vdw_r0au'', ''vdw_alpha'']"

definition special_keys :: "string list" where
  "special_keys =
    [''lreal'']"

definition dict_keys :: "string list" where
  "dict_keys =
    [''ldau_luj'']"


text \<open>
  \<^verbatim>\<open>Vasp.xc_defaults\<close> (lines 326 to 358): the parameters each exchange-correlation
  recipe stands for.
\<close>

definition xc_defaults :: "(string \<times> params) list" where
  "xc_defaults =
    [(''lda'', [(''pp'', PStr ''LDA'')]),
     (''pw91'', [(''pp'', PStr ''GGA''), (''gga'', PStr ''91'')]),
     (''pbe'', [(''pp'', PStr ''PBE''), (''gga'', PStr ''PE'')]),
     (''pbesol'', [(''gga'', PStr ''PS'')]),
     (''revpbe'', [(''gga'', PStr ''RE'')]),
     (''rpbe'', [(''gga'', PStr ''RP'')]),
     (''am05'', [(''gga'', PStr ''AM'')]),
     (''tpss'', [(''metagga'', PStr ''TPSS'')]),
     (''revtpss'', [(''metagga'', PStr ''RTPSS'')]),
     (''m06l'', [(''metagga'', PStr ''M06L'')]),
     (''vdw-df'', [(''gga'', PStr ''RE''), (''luse_vdw'', PBool True), (''aggac'', PNum 0)]),
     (''optpbe-vdw'', [(''gga'', PStr ''OR''), (''luse_vdw'', PBool True), (''aggac'', PNum 0)]),
     (''optb88-vdw'', [(''gga'', PStr ''BO''), (''luse_vdw'', PBool True), (''aggac'', PNum 0),
        (''param1'', PNum (11 / 60)), (''param2'', PNum (22 / 100))]),
     (''optb86b-vdw'', [(''gga'', PStr ''MK''), (''luse_vdw'', PBool True), (''aggac'', PNum 0),
        (''param1'', PNum (1234 / 10000)), (''param2'', PNum 1)]),
     (''vdw-df2'', [(''gga'', PStr ''ML''), (''luse_vdw'', PBool True), (''aggac'', PNum 0),
        (''zab_vdw'', PNum (- 18867 / 10000))]),
     (''beef-vdw'', [(''gga'', PStr ''BF''), (''luse_vdw'', PBool True),
        (''zab_vdw'', PNum (- 18867 / 10000))]),
     (''hf'', [(''lhfcalc'', PBool True), (''aexx'', PNum 1), (''aldac'', PNum 0),
        (''aggac'', PNum 0)]),
     (''b3lyp'', [(''gga'', PStr ''B3''), (''lhfcalc'', PBool True), (''aexx'', PNum (2 / 10)),
        (''aggax'', PNum (72 / 100)), (''aggac'', PNum (81 / 100)), (''aldac'', PNum (19 / 100))]),
     (''pbe0'', [(''gga'', PStr ''PE''), (''lhfcalc'', PBool True)]),
     (''hse03'', [(''gga'', PStr ''PE''), (''lhfcalc'', PBool True), (''hfscreen'', PNum (3 / 10))]),
     (''hse06'', [(''gga'', PStr ''PE''), (''lhfcalc'', PBool True), (''hfscreen'', PNum (2 / 10))]),
     (''hsesol'', [(''gga'', PStr ''PS''), (''lhfcalc'', PBool True), (''hfscreen'', PNum (2 / 10))])]"

subsection \<open>The structure and the calculator object\<close>

text \<open>
  Modelled from the spec: the structure container (\<^verbatim>\<open>ase.atoms.Atoms\<close>) is not part of the
  sources at hand. The spec's data model gives it per-atom species symbols, positions, a
  periodic cell, periodicity flags, initial magnetic moments and initial charges, and has it
  compared attribute by attribute; \<^verbatim>\<open>copy()\<close> yields an equal value. Comparison here is
  exact equality of the record (no numeric tolerance).
\<close>

record atoms =
  symbols :: "string list"
  atom_positions :: "(rat \<times> rat \<times> rat) list"
  cell :: "(rat \<times> rat \<times> rat) list"
  pbc :: "bool \<times> bool \<times> bool"
  initial_magmoms :: "rat list"
  initial_charges :: "rat list"

text \<open>
  The attributes of a \<^verbatim>\<open>Vasp\<close> object. An attribute that \<^verbatim>\<open>__init__\<close> assigns is always
  there and holds its value (Python's \<^verbatim>\<open>None\<close> is \<open>PNone\<close>; for \<open>atoms\<close> it is
  \<open>None\<close>, since the attribute holds either \<^verbatim>\<open>None\<close> or a structure). An attribute that
  only a later method assigns has an \<open>option\<close> type, \<open>None\<close> while it does not exist
  yet, so that reading it then is an \<^verbatim>\<open>AttributeError\<close> and \<^verbatim>\<open>hasattr\<close> is false.
\<close>

record calc =
  float_params :: params
  exp_params :: params
  string_params :: params
  int_params :: params
  bool_params :: params
  list_params :: params
  special_params :: params
  dict_params :: params
  input_params :: params
  name :: string
  restart :: pyval
  track_output :: bool
  output_template :: string
  nbands :: pyval
  atoms :: "atoms option"
  positions :: pyval
  run_counts :: nat
  old_float_params :: "params option"
  old_exp_params :: "params option"
  old_string_params :: "params option"
  old_int_params :: "params option"
  old_input_params :: "params option"
  old_bool_params :: "params option"
  old_list_params :: "params option"
  old_dict_params :: "params option"
  converged :: "pyval option"
  spinpol :: "pyval option"
  magnetic_moment :: "pyval option"
  magnetic_moments :: "pyval option"
  energy_free :: "pyval option"
  energy_zero :: "pyval option"
  forces :: "pyval option"
  dipole :: "pyval option"
  fermi :: "pyval option"
  stress :: "pyval option"
  version :: "pyval option"
  niter :: "pyval option"
  sigma :: "pyval option"
  nelect :: "pyval option"
  out :: "string option"

subsection \<open>Construction\<close>

definition new_dict :: "string list \<Rightarrow> params" where
  "new_dict keys = foldl (\<lambda>d k. AList.update k PNone d) [] keys"

text \<open>\<^verbatim>\<open>kwargs.get(k, None)\<close>.\<close>

definition kwargs_get :: "params \<Rightarrow> string \<Rightarrow> pyval" where
  "kwargs_get kwargs k = (case map_of kwargs k of None \<Rightarrow> PNone | Some v \<Rightarrow> v)"

definition ldau_message :: string where
  "ldau_message =
     ''You can either specify ldaul, ldauu, and ldauj OR '' @
     ''ldau_luj. ldau_luj is not a VASP keyword. It is a '' @
     ''dictionary that specifies L, U and J for each '' @
     ''chemical species in the atoms object. '' @
     ''For example for a water molecule:'' @
     ''ldau_luj={'' @ [CHR 0x27] @ ''H'' @ [CHR 0x27] @ '':{'' @ [CHR 0x27] @ ''L'' @ [CHR 0x27] @
     '':2, '' @ [CHR 0x27] @ ''U'' @ [CHR 0x27] @ '':4.0, '' @ [CHR 0x27] @ ''J'' @ [CHR 0x27] @
     '':0.9},'' @ [CHR 0x0A] @ ''                      '' @
     [CHR 0x27] @ ''O'' @ [CHR 0x27] @ '':{'' @ [CHR 0x27] @ ''L'' @ [CHR 0x27] @
     '':2, '' @ [CHR 0x27] @ ''U'' @ [CHR 0x27] @ '':4.0, '' @ [CHR 0x27] @ ''J'' @ [CHR 0x27] @
     '':0.9}}''"

text \<open>
  The state \<^verbatim>\<open>__init__\<close> builds before it hands the keyword arguments to \<^verbatim>\<open>set\<close>
  (lines 367 to 443, without \<^verbatim>\<open>restart\<close>): every registered key is unset, the input
  parameters have their defaults, and \<^verbatim>\<open>xc\<close> defaults to PW91 unless the caller chose a
  recipe, a \<^verbatim>\<open>gga\<close> or a \<^verbatim>\<open>pp\<close>.
\<close>

definition init_calc :: "string \<Rightarrow> bool \<Rightarrow> params \<Rightarrow> calc" where
  "init_calc template track kwargs =
     \<lparr> float_params = new_dict float_keys,
       exp_params = new_dict exp_keys,
       string_params = new_dict string_keys,
       int_params = new_dict int_keys,
       bool_params = new_dict bool_keys,
       list_params = new_dict list_keys,
       special_params = new_dict special_keys,
       dict_params = new_dict dict_keys,
       input_params =
         [(''xc'',
             if py_truthy (kwargs_get kwargs ''xc'') then PNone
             else if \<not> (py_truthy (kwargs_get kwargs ''gga'') \<or> py_truthy (kwargs_get kwargs ''pp''))
             then PStr ''PW91''
             else PNone),
          (''pp'', PNone),
          (''setups'', PNone),
          (''txt'', PStr ''-''),
          (''kpts'', PList [PNum 1, PNum 1, PNum 1]),
          (''gamma'', PBool False),
          (''kpts_nintersections'', PNone),
          (''reciprocal'', PBool False)],
       name = ''Vasp'',
       restart = PNone,
       track_output = track,
       output_template = template,
       nbands = PNone,
       atoms = None,
       positions = PNone,
       run_counts = 0,
       old_float_params = None,
       old_exp_params = None,
       old_string_params = None,
       old_int_params = None,
       old_input_params = None,
       old_bool_params = None,
       old_list_params = None,
       old_dict_params = None,
       converged = None,
       spinpol = None,
       magnetic_moment = None,
       magnetic_moments = None,
       energy_free = None,
       energy_zero = None,
       forces = None,
       dipole = None,
       fermi = None,
       stress = None,
       version = None,
       niter = None,
       sigma = None,
       nelect = None,
       out = None \<rparr>"

subsection \<open>Setting parameters\<close>

text \<open>
  A method that mutates the object and may raise returns the object as it is when the
  method ends, with the exception if one was raised: what was assigned before a
  \<^verbatim>\<open>raise\<close> stays assigned.

  The loop of \<^verbatim>\<open>set\<close> (lines 465 to 485) files each keyword under the first category
  that knows it; \<open>store_key\<close> is its body, \<open>None\<close> when the \<^verbatim>\<open>else\<close> branch raises.
\<close>

definition store_key :: "calc \<Rightarrow> string \<Rightarrow> pyval \<Rightarrow> calc option" where
  "store_key c key v =
     (if has_key (float_params c) key then
        Some (c\<lparr>float_params := AList.update key v (float_params c)\<rparr>)
      else if has_key (exp_params c) key then
        Some (c\<lparr>exp_params := AList.update key v (exp_params c)\<rparr>)
      else if has_key (string_params c) key then
        Some (c\<lparr>string_params := AList.update key v (string_params c)\<rparr>)
      else if has_key (int_params c) key then
        Some (c\<lparr>int_params := AList.update key v (int_params c)\<rparr>)
      else if has_key (bool_params c) key then
        Some (c\<lparr>bool_params := AList.update key v (bool_params c)\<rparr>)
      else if has_key (list_params c) key then
        Some (c\<lparr>list_params := AList.update key v (list_params c)\<rparr>)
      else if has_key (special_params c) key then
        Some (c\<lparr>special_params := AList.update key v (special_params c)\<rparr>)
      else if has_key (dict_params c) key then
        Some (c\<lparr>dict_params := AList.update key v (dict_params c)\<rparr>)
      else if has_key (input_params c) key then
        Some (c\<lparr>input_params := AList.update key v (input_params c)\<rparr>)
      else None)"

fun set_keys :: "calc \<Rightarrow> params \<Rightarrow> calc \<times> error option" where
  "set_keys c [] = (c, None)"
| "set_keys c ((key, v) # kwargs) =
     (case store_key c key v of
        None \<Rightarrow> (c, Some (TypeError (''Parameter not defined: '' @ key)))
      | Some c' \<Rightarrow> set_keys c' kwargs)"

text \<open>\<^verbatim>\<open>xc not in Vasp.xc_defaults\<close>: the table has string keys only.\<close>

fun xc_lookup :: "pyval \<Rightarrow> params option" where
  "xc_lookup (PStr s) = map_of xc_defaults s"
| "xc_lookup v = None"

fun py_str :: "pyval \<Rightarrow> string" where
  "py_str (PStr s) = s"
| "py_str v = []"

definition xc_unsupported :: "pyval \<Rightarrow> error" where
  "xc_unsupported xc =
     ValueError (py_str xc @ '' is not supported for xc! Supported xc valuesare: '' @
       py_join '', '' (map fst xc_defaults))"

text \<open>No recipe of the table has a key \<^verbatim>\<open>xc\<close>, so the expansion does not expand again.\<close>

lemma xc_defaults_no_xc: "map_of xc_defaults s = Some d \<Longrightarrow> map_of d ''xc'' = None"
proof -
  assume "map_of xc_defaults s = Some d"
  then have "(s, d) \<in> set xc_defaults"
    by (rule map_of_SomeD)
  then show ?thesis
    by (auto simp: xc_defaults_def)
qed

lemma xc_lookup_no_xc: "xc_lookup v = Some d \<Longrightarrow> map_of d ''xc'' = None"
  by (cases v) (auto dest: xc_defaults_no_xc)

text \<open>
  \<^verbatim>\<open>set_xc_params\<close> (lines 446 to 460) and \<^verbatim>\<open>set\<close> (lines 462 to 485) call each other:
  \<^verbatim>\<open>set\<close> expands an \<^verbatim>\<open>xc\<close> keyword first, and the expansion sets the recipe's
  parameters through \<^verbatim>\<open>set\<close>. The first statement of \<^verbatim>\<open>set_xc_params\<close> is
  \<^verbatim>\<open>xc = xc.lower()\<close>; the test \<^verbatim>\<open>xc is None\<close> comes after it.
\<close>

function set_xc_params :: "calc \<Rightarrow> pyval \<Rightarrow> calc \<times> error option"
  and set_params :: "calc \<Rightarrow> params \<Rightarrow> calc \<times> error option"
where
  "set_xc_params c xc0 =
     (case py_lower xc0 of
        Inl e \<Rightarrow> (c, Some e)
      | Inr xc \<Rightarrow>
          if xc = PNone then (c, None)
          else
            (case xc_lookup xc of
               None \<Rightarrow> (c, Some (xc_unsupported xc))
             | Some d \<Rightarrow>
                 if \<not> has_key d ''pp'' then
                   (case set_params c [(''pp'', PStr ''PBE'')] of
                      (c1, Some e) \<Rightarrow> (c1, Some e)
                    | (c1, None) \<Rightarrow> set_params c1 d)
                 else set_params c d))"
| "set_params c kwargs =
     (case map_of kwargs ''xc'' of
        None \<Rightarrow> set_keys c kwargs
      | Some xc \<Rightarrow>
          (case set_xc_params c xc of
             (c1, Some e) \<Rightarrow> (c1, Some e)
           | (c1, None) \<Rightarrow> set_keys c1 kwargs))"
  by pat_completeness auto
termination
proof (relation "measure (\<lambda>x. case x of
          Inl (c, xc) \<Rightarrow> 1
        | Inr (c, kwargs) \<Rightarrow> (if has_key kwargs ''xc'' then 2 else 0))")
  show "wf (measure (\<lambda>x. case x of
          Inl (c, xc) \<Rightarrow> 1
        | Inr (c, kwargs) \<Rightarrow> (if has_key kwargs ''xc'' then 2 else (0::nat))))"
    by simp
qed (auto simp: has_key_def dest!: xc_lookup_no_xc)

declare set_xc_params.simps [simp del] set_params.simps [simp del]

text \<open>The constructor without \<^verbatim>\<open>restart\<close> (lines 363 to 444).\<close>

definition Vasp :: "string \<Rightarrow> bool \<Rightarrow> params \<Rightarrow> calc \<times> error option" where
  "Vasp template track kwargs =
     (if has_key kwargs ''ldauu'' \<and> has_key kwargs ''ldaul'' \<and> has_key kwargs ''ldauj'' \<and>
         has_key kwargs ''ldau_luj''
      then (init_calc template track kwargs, Some NotImplementedError)
      else set_params (init_calc template track kwargs) kwargs)"

text \<open>A name is registered when one of the nine dictionaries has it as a key.\<close>

definition registered :: "calc \<Rightarrow> string \<Rightarrow> bool" where
  "registered c key =
     (has_key (float_params c) key \<or> has_key (exp_params c) key \<or>
      has_key (string_params c) key \<or> has_key (int_params c) key \<or>
      has_key (bool_params c) key \<or> has_key (list_params c) key \<or>
      has_key (special_params c) key \<or> has_key (dict_params c) key \<or>
      has_key (input_params c) key)"

subsection \<open>Facts about the registry\<close>

lemma map_of_foldl_update:
  "map_of (foldl (\<lambda>d k. AList.update k v d) d0 keys) k =
     (if k \<in> set keys then Some v else map_of d0 k)"
  by (induction keys arbitrary: d0) (auto simp: update_conv')

lemma map_of_new_dict: "map_of (new_dict keys) k = (if k \<in> set keys then Some PNone else None)"
  by (simp add: new_dict_def map_of_foldl_update)

lemma has_key_new_dict: "has_key (new_dict keys) k \<longleftrightarrow> k \<in> set keys"
  by (simp add: has_key_def map_of_new_dict)

lemma has_key_update: "has_key (AList.update k v d) k' \<longleftrightarrow> k' = k \<or> has_key d k'"
  by (simp add: has_key_def update_conv')

lemma has_key_input_init:
  "has_key (input_params (init_calc template track kwargs)) k \<longleftrightarrow>
     k \<in> set [''xc'', ''pp'', ''setups'', ''txt'', ''kpts'', ''gamma'', ''kpts_nintersections'',
       ''reciprocal'']"
  by (auto simp: init_calc_def has_key_def)

lemma registered_init_calc:
  "registered (init_calc template track kwargs) k \<longleftrightarrow>
     k \<in> set float_keys \<or> k \<in> set exp_keys \<or> k \<in> set string_keys \<or> k \<in> set int_keys \<or>
     k \<in> set bool_keys \<or> k \<in> set list_keys \<or> k \<in> set special_keys \<or> k \<in> set dict_keys \<or>
     k \<in> set [''xc'', ''pp'', ''setups'', ''txt'', ''kpts'', ''gamma'', ''kpts_nintersections'',
       ''reciprocal'']"
  unfolding registered_def has_key_input_init
  by (simp add: init_calc_def has_key_new_dict)

lemma not_a_real_key_unregistered:
  "\<not> registered (init_calc template track kwargs) ''not_a_real_key''"
  unfolding registered_init_calc
  by (simp add: float_keys_def exp_keys_def string_keys_def int_keys_def bool_keys_def
      list_keys_def special_keys_def dict_keys_def)

text \<open>
  What \<^verbatim>\<open>set\<close> does with several keywords when one of them is unknown and none is
  \<^verbatim>\<open>xc\<close>: it raises for the first unknown one, after it has stored the keywords before it.
\<close>

lemma registered_set_key:
  "registered (c\<lparr>float_params := AList.update k v (float_params c)\<rparr>) k' \<longleftrightarrow>
     k' = k \<or> registered c k'"
  "registered (c\<lparr>exp_params := AList.update k v (exp_params c)\<rparr>) k' \<longleftrightarrow>
     k' = k \<or> registered c k'"
  "registered (c\<lparr>string_params := AList.update k v (string_params c)\<rparr>) k' \<longleftrightarrow>
     k' = k \<or> registered c k'"
  "registered (c\<lparr>int_params := AList.update k v (int_params c)\<rparr>) k' \<longleftrightarrow>
     k' = k \<or> registered c k'"
  "registered (c\<lparr>bool_params := AList.update k v (bool_params c)\<rparr>) k' \<longleftrightarrow>
     k' = k \<or> registered c k'"
  "registered (c\<lparr>list_params := AList.update k v (list_params c)\<rparr>) k' \<longleftrightarrow>
     k' = k \<or> registered c k'"
  "registered (c\<lparr>special_params := AList.update k v (special_params c)\<rparr>) k' \<longleftrightarrow>
     k' = k \<or> registered c k'"
  "registered (c\<lparr>dict_params := AList.update k v (dict_params c)\<rparr>) k' \<longleftrightarrow>
     k' = k \<or> registered c k'"
  "registered (c\<lparr>input_params := AList.update k v (input_params c)\<rparr>) k' \<longleftrightarrow>
     k' = k \<or> registered c k'"
  by (auto simp: registered_def has_key_update)

lemma store_key_None: "store_key c k v = None \<longleftrightarrow> \<not> registered c k"
  by (simp add: store_key_def registered_def)

lemma registered_absorb: "registered c k \<Longrightarrow> (k' = k \<or> registered c k') = registered c k'"
  by auto

lemma store_key_registered:
  assumes "store_key c k v = Some c'"
  shows "registered c' k' \<longleftrightarrow> registered c k'"
proof -
  from assms have r: "registered c k"
    using store_key_None [of c k v] by simp
  from assms show ?thesis
    unfolding store_key_def
    by (auto simp: registered_set_key registered_absorb [OF r] split: if_splits)
qed

lemma set_keys_unknown:
  assumes "(k, v) \<in> set kwargs" and "\<not> registered c k"
  shows "\<exists>k'. \<not> registered c k' \<and>
           snd (set_keys c kwargs) = Some (TypeError (''Parameter not defined: '' @ k'))"
  using assms
proof (induction kwargs arbitrary: c)
  case Nil
  then show ?case by simp
next
  case (Cons kv kwargs)
  obtain k0 v0 where kv: "kv = (k0, v0)"
    by (cases kv)
  show ?case
  proof (cases "store_key c k0 v0")
    case None
    then have "\<not> registered c k0"
      by (simp add: store_key_None)
    with None kv show ?thesis
      by auto
  next
    case (Some c')
    then have "registered c k0"
      using store_key_None [of c k0 v0] by simp
    with Cons.prems kv have mem: "(k, v) \<in> set kwargs"
      by auto
    from Cons.prems(2) have "\<not> registered c' k"
      by (simp add: store_key_registered [OF Some])
    from Cons.IH [OF mem this] Some kv show ?thesis
      by (auto simp: store_key_registered [OF Some])
  qed
qed

text \<open>
  C5. Calling \<^verbatim>\<open>set\<close> with one keyword whose name none of the nine dictionaries (the
  eight parameter categories and the input parameters) has as a key raises
  \<^verbatim>\<open>TypeError('Parameter not defined: ' + name)\<close> and leaves the calculator as it was.
  The calculator is any object whose input parameters have the key \<^verbatim>\<open>xc\<close>, as every
  constructed one has.
\<close>

theorem set_unknown_parameter:
  assumes "\<not> registered c key" and "has_key (input_params c) ''xc''"
  shows "set_params c [(key, v)] = (c, Some (TypeError (''Parameter not defined: '' @ key)))"
proof -
  from assms have "key \<noteq> ''xc''"
    by (auto simp: registered_def)
  then have "set_params c [(key, v)] = set_keys c [(key, v)]"
    by (simp add: set_params.simps)
  also from assms(1) have "\<dots> = (c, Some (TypeError (''Parameter not defined: '' @ key)))"
    using store_key_None [of c key v] by simp
  finally show ?thesis .
qed

theorem set_unknown_parameter_witness:
  "\<not> registered (init_calc ''vasp'' False []) ''not_a_real_key'' \<and>
   has_key (input_params (init_calc ''vasp'' False [])) ''xc'' \<and>
   set_params (init_calc ''vasp'' False []) [(''not_a_real_key'', PNum 1)] =
     (init_calc ''vasp'' False [], Some (TypeError ''Parameter not defined: not_a_real_key''))"
proof -
  have h1: "\<not> registered (init_calc ''vasp'' False []) ''not_a_real_key''"
    by (rule not_a_real_key_unregistered)
  have h2: "has_key (input_params (init_calc ''vasp'' False [])) ''xc''"
    by (simp add: init_calc_def has_key_def)
  from set_unknown_parameter [OF h1 h2, of "PNum 1"] h1 h2 show ?thesis
    by simp
qed

text \<open>
  C10. \<^verbatim>\<open>set_xc_params\<close> calls \<^verbatim>\<open>xc.lower()\<close> before it tests \<^verbatim>\<open>xc is None\<close>. For the
  input \<^verbatim>\<open>None\<close>, alone or through \<^verbatim>\<open>set(xc=None)\<close>, the call raises an
  \<^verbatim>\<open>AttributeError\<close> for \<^verbatim>\<open>lower\<close> and changes nothing; and no input reaches the
  \<^verbatim>\<open>xc is None\<close> branch, since \<^verbatim>\<open>lower\<close> never returns \<^verbatim>\<open>None\<close>.
\<close>

theorem set_xc_params_None:
  "set_xc_params c PNone = (c, Some (AttributeError ''lower'')) \<and>
   set_params c [(''xc'', PNone)] = (c, Some (AttributeError ''lower'')) \<and>
   (\<forall>v. py_lower v \<noteq> Inr PNone)"
proof -
  have a: "set_xc_params c PNone = (c, Some (AttributeError ''lower''))"
    by (simp add: set_xc_params.simps)
  have b: "py_lower v \<noteq> Inr PNone" for v
    by (cases v) simp_all
  from a b show ?thesis
    by (simp add: set_params.simps)
qed

section \<open>The change gate\<close>

text \<open>Sequencing of steps that may raise: the first exception ends the method.\<close>

definition and_then :: "error + 'a \<Rightarrow> ('a \<Rightarrow> error + 'b) \<Rightarrow> error + 'b" where
  "and_then r f = (case r of Inl e \<Rightarrow> Inl e | Inr x \<Rightarrow> f x)"

text \<open>
  Python's \<^verbatim>\<open>a or b\<close> on truth values: \<^verbatim>\<open>b\<close> is not evaluated when \<^verbatim>\<open>a\<close> is true, so
  an exception of \<^verbatim>\<open>b\<close> is not raised then.
\<close>

definition py_or :: "error + bool \<Rightarrow> error + bool \<Rightarrow> error + bool" where
  "py_or a b = (case a of Inl e \<Rightarrow> Inl e | Inr x \<Rightarrow> if x then Inr True else b)"

text \<open>\<^verbatim>\<open>self.atoms != atoms\<close>: \<^verbatim>\<open>None\<close> differs from every structure.\<close>

definition atoms_ne :: "atoms option \<Rightarrow> atoms \<Rightarrow> bool" where
  "atoms_ne cached a = (case cached of None \<Rightarrow> True | Some b \<Rightarrow> b \<noteq> a)"

text \<open>\<^verbatim>\<open>self.float_params != self.old_float_params\<close> and its seven siblings.\<close>

definition changed :: "string \<Rightarrow> params \<Rightarrow> params option \<Rightarrow> error + bool" where
  "changed what cur old = and_then (attr what old) (\<lambda>d. Inr (\<not> dict_eq cur d))"

text \<open>\<^verbatim>\<open>calculation_required\<close> (lines 944 to 959).\<close>

definition calculation_required :: "calc \<Rightarrow> atoms \<Rightarrow> string list \<Rightarrow> error + bool" where
  "calculation_required c a quantities =
     and_then
       (py_or (Inr (positions c = PNone))
       (py_or (Inr (atoms_ne (atoms c) a))
       (py_or (changed ''old_float_params'' (float_params c) (old_float_params c))
       (py_or (changed ''old_exp_params'' (exp_params c) (old_exp_params c))
       (py_or (changed ''old_string_params'' (string_params c) (old_string_params c))
       (py_or (changed ''old_int_params'' (int_params c) (old_int_params c))
       (py_or (changed ''old_bool_params'' (bool_params c) (old_bool_params c))
       (py_or (changed ''old_list_params'' (list_params c) (old_list_params c))
       (py_or (changed ''old_input_params'' (input_params c) (old_input_params c))
       (py_or (changed ''old_dict_params'' (dict_params c) (old_dict_params c))
              (and_then (attr ''converged'' (converged c)) (\<lambda>v. Inr (\<not> py_truthy v)))))))))))))
       (\<lambda>stale.
          if stale then Inr True
          else if ''magmom'' \<in> set quantities then Inr (magnetic_moment c = None)
          else Inr False)"

subsection \<open>Recording a run\<close>

text \<open>
  What the reader methods return on the files a run has left: each is the parsed value or
  the exception the reader raises. \<^verbatim>\<open>read_convergence\<close> is modelled on the text of the
  report further down; the other readers are taken by their results.
\<close>

record readers =
  rd_energy :: "error + pyval \<times> pyval"
  rd_forces :: "error + pyval"
  rd_dipole :: "error + pyval"
  rd_fermi :: "error + pyval"
  rd_nbands :: "error + pyval"
  rd_stress :: "error + pyval"
  rd_magnetic_moment :: "error + pyval"
  rd_magnetic_moments :: "error + pyval"
  rd_version :: "error + pyval"
  rd_number_of_iterations :: "error + pyval"
  rd_electronic_temperature :: "error + pyval"
  rd_number_of_electrons :: "error + pyval"

text \<open>\<^verbatim>\<open>atoms.get_positions()\<close>: an array, never \<^verbatim>\<open>None\<close>.\<close>

definition get_positions :: "atoms \<Rightarrow> pyval" where
  "get_positions a = PList (map (\<lambda>(x, y, z). PList [PNum x, PNum y, PNum z]) (atom_positions a))"

text \<open>
  Modelled from the spec: \<^verbatim>\<open>read(atoms)\<close> is inherited from the base class of
  \<^verbatim>\<open>ase/calculators/general.py\<close>, which is not part of the sources at hand. By the spec the
  result parser reads the reports of the run and updates the cached results (energies,
  forces, dipole, Fermi level, number of bands, stress), and a prior run is what
  \<^verbatim>\<open>calculation_required\<close> tests through \<^verbatim>\<open>self.positions\<close>: the method records the
  positions and a copy of the structure.
\<close>

definition read_results :: "readers \<Rightarrow> calc \<Rightarrow> atoms \<Rightarrow> error + calc" where
  "read_results rd c a =
     and_then (rd_energy rd) (\<lambda>(ef, ez).
     and_then (rd_forces rd) (\<lambda>f.
     and_then (rd_dipole rd) (\<lambda>d.
     and_then (rd_fermi rd) (\<lambda>e.
     and_then (rd_nbands rd) (\<lambda>n.
     and_then (rd_stress rd) (\<lambda>st.
       Inr (c\<lparr>positions := get_positions a, energy_free := Some ef, energy_zero := Some ez,
              forces := Some f, dipole := Some d, fermi := Some e, atoms := Some a,
              nbands := n, stress := Some st\<rparr>)))))))"

text \<open>\<^verbatim>\<open>x >= n\<close> for a number \<^verbatim>\<open>n\<close>; a value that is not a number raises (Python 3).\<close>

fun py_ge :: "pyval \<Rightarrow> rat \<Rightarrow> error + bool" where
  "py_ge (PNum x) n = Inr (x \<ge> n)"
| "py_ge (PBool b) n = Inr ((if b then 1 else 0) \<ge> n)"
| "py_ge v n = Inl (TypeError ''>='')"

text \<open>
  The condition under which per-atom magnetic moments are read in \<^verbatim>\<open>set_results\<close>
  (lines 719 to 721): \<^verbatim>\<open>lorbit is not None and (lorbit >= 10 or rwigs)\<close>.
\<close>

definition moments_projected :: "calc \<Rightarrow> error + bool" where
  "moments_projected c =
     and_then (getitem (int_params c) ''lorbit'') (\<lambda>lorbit.
       if lorbit = PNone then Inr False
       else and_then (py_ge lorbit 10) (\<lambda>big.
         if big then Inr True
         else and_then (getitem (list_params c) ''rwigs'') (\<lambda>r. Inr (py_truthy r))))"

text \<open>
  \<^verbatim>\<open>set_results\<close> (lines 715 to 738) in three parts: the magnetic moments of a
  spin-polarised run (lines 717 to 724), the assignments that follow (lines 725 to 738),
  which copy eight dictionaries (float, exp, string, int, input, bool, list, dict) and the
  structure, and the method itself.
\<close>

definition read_moments :: "readers \<Rightarrow> calc \<Rightarrow> error + calc" where
  "read_moments rd c =
     and_then (attr ''spinpol'' (spinpol c)) (\<lambda>sp.
       if py_truthy sp then
         and_then (rd_magnetic_moment rd) (\<lambda>m.
         and_then (moments_projected c) (\<lambda>proj.
           if proj then
             and_then (rd_magnetic_moments rd) (\<lambda>ms.
               Inr (c\<lparr>magnetic_moment := Some m, magnetic_moments := Some ms\<rparr>))
           else Inr (c\<lparr>magnetic_moment := Some m, magnetic_moments := Some PNone\<rparr>)))
       else Inr c)"

definition snapshot :: "calc \<Rightarrow> atoms \<Rightarrow> calc" where
  "snapshot c a =
     c\<lparr>old_float_params := Some (float_params c),
       old_exp_params := Some (exp_params c),
       old_string_params := Some (string_params c),
       old_int_params := Some (int_params c),
       old_input_params := Some (input_params c),
       old_bool_params := Some (bool_params c),
       old_list_params := Some (list_params c),
       old_dict_params := Some (dict_params c),
       atoms := Some a,
       name := ''vasp''\<rparr>"

definition set_results :: "readers \<Rightarrow> calc \<Rightarrow> atoms \<Rightarrow> error + calc" where
  "set_results rd c0 a =
     and_then (read_results rd c0 a) (\<lambda>c1.
     and_then (read_moments rd c1) (\<lambda>c2.
     and_then (rd_version rd) (\<lambda>ver.
     and_then (rd_number_of_iterations rd) (\<lambda>ni.
     and_then (rd_electronic_temperature rd) (\<lambda>sg.
     and_then (rd_number_of_electrons rd) (\<lambda>ne.
       Inr ((snapshot c2 a)\<lparr>version := Some ver, niter := Some ni, sigma := Some sg,
              nelect := Some ne\<rparr>)))))))"

subsection \<open>The property accessors\<close>

text \<open>
  \<^verbatim>\<open>update\<close> (lines 487 to 495) runs a calculation when the gate asks for one.
  \<^verbatim>\<open>calculate\<close> writes the input files, runs the external program and parses its
  reports; what it does to the object is the parameter \<open>calculate\<close>. (\<^verbatim>\<open>clean\<close>, which
  \<^verbatim>\<open>update\<close> calls before a wholly new calculation, only removes files.)
\<close>

definition update :: "(calc \<Rightarrow> atoms \<Rightarrow> error + calc) \<Rightarrow> calc \<Rightarrow> atoms \<Rightarrow> error + calc" where
  "update calculate c a =
     and_then (calculation_required c a [''energy'']) (\<lambda>req.
       if req then calculate c a else Inr c)"

text \<open>\<^verbatim>\<open>get_stress\<close> (lines 901 to 905).\<close>

definition get_stress ::
  "(calc \<Rightarrow> atoms \<Rightarrow> error + calc) \<Rightarrow> calc \<Rightarrow> atoms \<Rightarrow> error + calc \<times> pyval" where
  "get_stress calculate c a =
     and_then (update calculate c a) (\<lambda>c'.
     and_then (attr ''stress'' (stress c')) (\<lambda>s.
       if s = PNone then Inl PropertyNotImplementedError else Inr (c', s)))"

text \<open>
  \<^verbatim>\<open>get_magnetic_moments\<close> (lines 1013 to 1020); its condition is
  \<^verbatim>\<open>(lorbit is not None and lorbit >= 10) or rwigs\<close>.
\<close>

definition get_magnetic_moments ::
  "(calc \<Rightarrow> atoms \<Rightarrow> error + calc) \<Rightarrow> calc \<Rightarrow> atoms \<Rightarrow> error + calc \<times> pyval" where
  "get_magnetic_moments calculate c a =
     and_then (getitem (int_params c) ''lorbit'') (\<lambda>lorbit.
     and_then (py_or (if lorbit = PNone then Inr False else py_ge lorbit 10)
                 (and_then (getitem (list_params c) ''rwigs'') (\<lambda>r. Inr (py_truthy r))))
       (\<lambda>wanted.
          if wanted then
            and_then (update calculate c a) (\<lambda>c'.
            and_then (attr ''magnetic_moments'' (magnetic_moments c')) (\<lambda>ms. Inr (c', ms)))
          else Inr (c, PNone)))"

subsection \<open>Facts about the change gate\<close>

lemma dict_eq_refl: "dict_eq d d"
  by (simp add: dict_eq_def list_all_iff)

lemma dict_eq_iff: "dict_eq d1 d2 \<longleftrightarrow> map_of d1 = map_of d2"
proof
  assume eq: "dict_eq d1 d2"
  show "map_of d1 = map_of d2"
  proof
    fix k
    show "map_of d1 k = map_of d2 k"
    proof (cases "k \<in> fst ` set d1 \<union> fst ` set d2")
      case True
      with eq show ?thesis
        by (auto simp: dict_eq_def list_all_iff)
    next
      case False
      then have "map_of d1 k = None" and "map_of d2 k = None"
        by (simp_all add: map_of_eq_None_iff)
      then show ?thesis
        by simp
    qed
  qed
next
  assume "map_of d1 = map_of d2"
  then show "dict_eq d1 d2"
    by (simp add: dict_eq_def list_all_iff)
qed

lemma calculation_required_eq:
  assumes "old_float_params c = Some ofl" "old_exp_params c = Some oe"
    "old_string_params c = Some ost" "old_int_params c = Some oi"
    "old_bool_params c = Some ob" "old_list_params c = Some ol"
    "old_input_params c = Some oip" "old_dict_params c = Some od"
    "converged c = Some v"
  shows "calculation_required c a q =
     Inr (positions c = PNone \<or> atoms_ne (atoms c) a \<or>
          \<not> dict_eq (float_params c) ofl \<or> \<not> dict_eq (exp_params c) oe \<or>
          \<not> dict_eq (string_params c) ost \<or> \<not> dict_eq (int_params c) oi \<or>
          \<not> dict_eq (bool_params c) ob \<or> \<not> dict_eq (list_params c) ol \<or>
          \<not> dict_eq (input_params c) oip \<or> \<not> dict_eq (dict_params c) od \<or>
          \<not> py_truthy v \<or> (''magmom'' \<in> set q \<and> magnetic_moment c = None))"
  using assms
  by (simp add: calculation_required_def py_or_def and_then_def changed_def attr_def)

lemma and_then_Inr: "and_then r f = Inr y \<longleftrightarrow> (\<exists>x. r = Inr x \<and> f x = Inr y)"
  by (cases r) (simp_all add: and_then_def)

subsection \<open>What a recorded run leaves\<close>

lemma read_results_fields:
  assumes "read_results rd c a = Inr c1"
  shows "positions c1 = get_positions a \<and> float_params c1 = float_params c \<and>
    exp_params c1 = exp_params c \<and> string_params c1 = string_params c \<and>
    int_params c1 = int_params c \<and> bool_params c1 = bool_params c \<and>
    list_params c1 = list_params c \<and> special_params c1 = special_params c \<and>
    dict_params c1 = dict_params c \<and> input_params c1 = input_params c \<and>
    converged c1 = converged c \<and> spinpol c1 = spinpol c \<and>
    magnetic_moment c1 = magnetic_moment c \<and>
    (\<exists>st. rd_stress rd = Inr st \<and> stress c1 = Some st)"
  using assms
  by (auto simp: read_results_def and_then_Inr)

lemma read_moments_fields:
  assumes "read_moments rd c1 = Inr c2"
  shows "positions c2 = positions c1 \<and> float_params c2 = float_params c1 \<and>
    exp_params c2 = exp_params c1 \<and> string_params c2 = string_params c1 \<and>
    int_params c2 = int_params c1 \<and> bool_params c2 = bool_params c1 \<and>
    list_params c2 = list_params c1 \<and> special_params c2 = special_params c1 \<and>
    dict_params c2 = dict_params c1 \<and> input_params c2 = input_params c1 \<and>
    converged c2 = converged c1 \<and> spinpol c2 = spinpol c1 \<and> stress c2 = stress c1"
  using assms
  by (auto simp: read_moments_def and_then_Inr split: if_splits)

lemma set_results_snapshot:
  assumes "set_results rd c a = Inr c'"
  shows "positions c' \<noteq> PNone \<and> atoms c' = Some a \<and>
    old_float_params c' = Some (float_params c') \<and> old_exp_params c' = Some (exp_params c') \<and>
    old_string_params c' = Some (string_params c') \<and> old_int_params c' = Some (int_params c') \<and>
    old_bool_params c' = Some (bool_params c') \<and> old_list_params c' = Some (list_params c') \<and>
    old_input_params c' = Some (input_params c') \<and> old_dict_params c' = Some (dict_params c') \<and>
    converged c' = converged c \<and> special_params c' = special_params c"
proof -
  from assms obtain c1 c2 ver ni sg ne where
    r: "read_results rd c a = Inr c1" and m: "read_moments rd c1 = Inr c2" and
    c': "c' = (snapshot c2 a)\<lparr>version := Some ver, niter := Some ni, sigma := Some sg,
              nelect := Some ne\<rparr>"
    unfolding set_results_def and_then_Inr by auto
  from read_results_fields [OF r] read_moments_fields [OF m] have
    "positions c2 = get_positions a \<and> converged c2 = converged c \<and>
     special_params c2 = special_params c"
    by simp
  with c' show ?thesis
    by (simp add: get_positions_def snapshot_def)
qed

lemma calculation_required_after_run:
  assumes "set_results rd c a = Inr c'" and "converged c = Some v" and "py_truthy v"
  shows "calculation_required c' a q = Inr (''magmom'' \<in> set q \<and> magnetic_moment c' = None)"
proof -
  note s = set_results_snapshot [OF assms(1)]
  from s assms(2) have "converged c' = Some v"
    by simp
  with s assms(3) show ?thesis
    by (simp add: calculation_required_eq [where v = v] dict_eq_refl atoms_ne_def)
qed

lemma set_results_params:
  assumes "set_results rd c a = Inr c'"
  shows "float_params c' = float_params c \<and> exp_params c' = exp_params c \<and>
    string_params c' = string_params c \<and> int_params c' = int_params c \<and>
    bool_params c' = bool_params c \<and> list_params c' = list_params c \<and>
    special_params c' = special_params c \<and> dict_params c' = dict_params c \<and>
    input_params c' = input_params c \<and>
    (\<exists>st. rd_stress rd = Inr st \<and> stress c' = Some st)"
proof -
  from assms obtain c1 c2 ver ni sg ne where
    r: "read_results rd c a = Inr c1" and m: "read_moments rd c1 = Inr c2" and
    c': "c' = (snapshot c2 a)\<lparr>version := Some ver, niter := Some ni, sigma := Some sg,
              nelect := Some ne\<rparr>"
    unfolding set_results_def and_then_Inr by auto
  from read_results_fields [OF r] read_moments_fields [OF m] c' show ?thesis
    by (simp add: snapshot_def)
qed

text \<open>The gate does not look at the special parameters.\<close>

lemma calculation_required_special:
  "calculation_required (c\<lparr>special_params := sp\<rparr>) a q = calculation_required c a q"
  by (simp add: calculation_required_def cong: if_cong)

subsection \<open>A recorded run\<close>

text \<open>
  A hydrogen molecule, and a new calculator in the state in which \<^verbatim>\<open>calculate\<close> calls
  \<^verbatim>\<open>set_results\<close>: \<^verbatim>\<open>initialize\<close> has found no initial magnetic moments
  (\<^verbatim>\<open>spinpol\<close> is false) and \<^verbatim>\<open>read_convergence\<close> has returned true. The report of the
  run has no stress line.
\<close>

definition example_atoms :: atoms where
  "example_atoms =
     \<lparr> symbols = [''H'', ''H''],
       atom_positions = [(0, 0, 0), (0, 0, 3 / 4)],
       cell = [(5, 0, 0), (0, 5, 0), (0, 0, 5)],
       pbc = (True, True, True),
       initial_magmoms = [0, 0],
       initial_charges = [0, 0] \<rparr>"

definition example_readers :: readers where
  "example_readers =
     \<lparr> rd_energy = Inr (PNum (- 67 / 10), PNum (- 67 / 10)),
       rd_forces = Inr (PList [PList [PNum 0, PNum 0, PNum 0], PList [PNum 0, PNum 0, PNum 0]]),
       rd_dipole = Inr (PList [PList [PNum 0, PNum 0, PNum 0]]),
       rd_fermi = Inr (PNum (- 5)),
       rd_nbands = Inr (PNum 8),
       rd_stress = Inr PNone,
       rd_magnetic_moment = Inl (NameError ''magnetic_moment''),
       rd_magnetic_moments = Inr (PList [PNum 0, PNum 0]),
       rd_version = Inr (PStr ''5.4.1''),
       rd_number_of_iterations = Inr (PNum 12),
       rd_electronic_temperature = Inr (PNum (1 / 10)),
       rd_number_of_electrons = Inr (PNum 2) \<rparr>"

definition example_calc :: calc where
  "example_calc =
     (init_calc ''vasp'' False [])\<lparr>spinpol := Some (PBool False), converged := Some (PBool True)\<rparr>"

definition example_after_run :: calc where
  "example_after_run =
     (case set_results example_readers example_calc example_atoms of
        Inr c \<Rightarrow> c
      | Inl e \<Rightarrow> example_calc)"

lemma example_run: "set_results example_readers example_calc example_atoms = Inr example_after_run"
proof -
  have "\<exists>c. set_results example_readers example_calc example_atoms = Inr c"
    by (simp add: set_results_def read_results_def read_moments_def and_then_def attr_def
        example_readers_def example_calc_def)
  then show ?thesis
    by (auto simp: example_after_run_def)
qed

lemma example_after_run_not_required:
  "calculation_required example_after_run example_atoms [''energy''] = Inr False"
proof -
  have "converged example_calc = Some (PBool True)"
    by (simp add: example_calc_def)
  from calculation_required_after_run [OF example_run this, of "[''energy'']"] show ?thesis
    by simp
qed

lemma example_after_run_params:
  "float_params example_after_run = new_dict float_keys"
  "exp_params example_after_run = new_dict exp_keys"
  "string_params example_after_run = new_dict string_keys"
  "int_params example_after_run = new_dict int_keys"
  "bool_params example_after_run = new_dict bool_keys"
  "list_params example_after_run = new_dict list_keys"
  "special_params example_after_run = [(''lreal'', PNone)]"
  "stress example_after_run = Some PNone"
  using set_results_params [OF example_run]
  by (simp_all add: example_calc_def init_calc_def example_readers_def new_dict_def special_keys_def)

text \<open>
  C1. The gate compares eight dictionaries with the copies \<^verbatim>\<open>set_results\<close> made of them;
  the ninth, \<^verbatim>\<open>special_params\<close> (the key \<^verbatim>\<open>lreal\<close>), is neither copied nor compared.
  After the recorded run above the gate answers false; \<^verbatim>\<open>set(lreal='Auto')\<close> then changes
  the special parameters, and the gate still answers false.
\<close>

theorem calculation_required_misses_special:
  "set_results example_readers example_calc example_atoms = Inr example_after_run \<and>
   calculation_required example_after_run example_atoms [''energy''] = Inr False \<and>
   special_params example_after_run = [(''lreal'', PNone)] \<and>
   set_params example_after_run [(''lreal'', PStr ''Auto'')] =
     (example_after_run\<lparr>special_params := [(''lreal'', PStr ''Auto'')]\<rparr>, None) \<and>
   calculation_required (example_after_run\<lparr>special_params := [(''lreal'', PStr ''Auto'')]\<rparr>)
     example_atoms [''energy''] = Inr False"
proof -
  have "store_key example_after_run ''lreal'' (PStr ''Auto'') =
      Some (example_after_run\<lparr>special_params :=
        AList.update ''lreal'' (PStr ''Auto'') (special_params example_after_run)\<rparr>)"
    apply (simp only: store_key_def example_after_run_params(1-6) has_key_new_dict)
    apply (simp add: float_keys_def exp_keys_def string_keys_def int_keys_def
        bool_keys_def list_keys_def)
    apply (simp add: example_after_run_params(7) has_key_def)
    done
  then have "store_key example_after_run ''lreal'' (PStr ''Auto'') =
      Some (example_after_run\<lparr>special_params := [(''lreal'', PStr ''Auto'')]\<rparr>)"
    by (simp add: example_after_run_params(7))
  then have "set_keys example_after_run [(''lreal'', PStr ''Auto'')] =
      (example_after_run\<lparr>special_params := [(''lreal'', PStr ''Auto'')]\<rparr>, None)"
    by simp
  then have "set_params example_after_run [(''lreal'', PStr ''Auto'')] =
      (example_after_run\<lparr>special_params := [(''lreal'', PStr ''Auto'')]\<rparr>, None)"
    by (simp add: set_params.simps)
  with example_run example_after_run_not_required example_after_run_params(7) show ?thesis
    by (simp add: calculation_required_special)
qed

subsection \<open>Properties the run did not produce\<close>

text \<open>A stand-in for \<^verbatim>\<open>calculate\<close> where no calculation is started.\<close>

definition no_calculation :: "calc \<Rightarrow> atoms \<Rightarrow> error + calc" where
  "no_calculation c a = Inl (RuntimeError ''calculate'')"

text \<open>
  C6, as the claim states it, fails for the stress: after the recorded run, whose report had
  no stress line, \<^verbatim>\<open>get_stress\<close> raises \<^verbatim>\<open>PropertyNotImplementedError\<close>; it does not
  return a value.
\<close>

theorem get_stress_raises:
  "get_stress no_calculation example_after_run example_atoms = Inl PropertyNotImplementedError"
  by (simp add: get_stress_def update_def example_after_run_not_required and_then_def attr_def
      example_after_run_params)

text \<open>
  C6, amended. When the object has no stress after the update (the report had no stress
  line), \<^verbatim>\<open>get_stress\<close> raises \<^verbatim>\<open>PropertyNotImplementedError\<close>. When orbital projection
  was not requested (\<^verbatim>\<open>lorbit\<close> unset or a number below 10, and \<^verbatim>\<open>rwigs\<close> unset or
  empty), \<^verbatim>\<open>get_magnetic_moments\<close> returns \<^verbatim>\<open>None\<close> as its value, without an update and
  without an exception.
\<close>

theorem not_produced_properties:
  "(update calculate c a = Inr c' \<and> stress c' = Some PNone \<longrightarrow>
      get_stress calculate c a = Inl PropertyNotImplementedError) \<and>
   (getitem (int_params c) ''lorbit'' = Inr l \<and> (l = PNone \<or> (\<exists>n. l = PNum n \<and> n < 10)) \<and>
    getitem (list_params c) ''rwigs'' = Inr r \<and> \<not> py_truthy r \<longrightarrow>
      get_magnetic_moments calculate c a = Inr (c, PNone))"
  by (auto simp: get_stress_def get_magnetic_moments_def and_then_def attr_def py_or_def)

theorem not_produced_properties_witness:
  "update no_calculation example_after_run example_atoms = Inr example_after_run \<and>
   stress example_after_run = Some PNone \<and>
   get_stress no_calculation example_after_run example_atoms = Inl PropertyNotImplementedError \<and>
   getitem (int_params example_after_run) ''lorbit'' = Inr PNone \<and>
   getitem (list_params example_after_run) ''rwigs'' = Inr PNone \<and>
   \<not> py_truthy PNone \<and>
   get_magnetic_moments no_calculation example_after_run example_atoms =
     Inr (example_after_run, PNone)"
proof -
  have u: "update no_calculation example_after_run example_atoms = Inr example_after_run"
    by (simp add: update_def example_after_run_not_required and_then_def)
  have s: "stress example_after_run = Some PNone"
    by (rule example_after_run_params)
  have l: "getitem (int_params example_after_run) ''lorbit'' = Inr PNone"
    by (simp add: getitem_def example_after_run_params(4) map_of_new_dict int_keys_def)
  have r: "getitem (list_params example_after_run) ''rwigs'' = Inr PNone"
    by (simp add: getitem_def example_after_run_params(6) map_of_new_dict list_keys_def)
  from not_produced_properties [of no_calculation example_after_run example_atoms
      example_after_run PNone PNone] u s l r
  show ?thesis
    by simp
qed

section \<open>Text and numbers\<close>

text \<open>
  The string methods and conversions of Python that the readers and writers use, on byte
  strings. White space is what \<^verbatim>\<open>str.split()\<close> and \<^verbatim>\<open>str.strip()\<close> take as such
  among the ASCII characters.
\<close>

definition is_space :: "char \<Rightarrow> bool" where
  "is_space c = (c \<in> set [CHR '' '', CHR 0x09, CHR 0x0A, CHR 0x0B, CHR 0x0C, CHR 0x0D])"

definition is_digit :: "char \<Rightarrow> bool" where
  "is_digit c = (c \<in> set ''0123456789'')"

definition digit_val :: "char \<Rightarrow> nat" where
  "digit_val c =
     (case map_of (zip ''0123456789'' [0, 1, 2, 3, 4, 5, 6, 7, 8, 9]) c of
        Some d \<Rightarrow> d
      | None \<Rightarrow> 0)"

definition digits_val :: "string \<Rightarrow> nat" where
  "digits_val s = foldl (\<lambda>n c. 10 * n + digit_val c) 0 s"

definition py_strip :: "string \<Rightarrow> string" where
  "py_strip s = rev (dropWhile is_space (rev (dropWhile is_space s)))"

text \<open>An optional sign in front of the rest.\<close>

fun split_sign :: "string \<Rightarrow> bool \<times> string" where
  "split_sign [] = (False, [])"
| "split_sign (c # cs) =
     (if c = CHR ''-'' then (True, cs) else if c = CHR ''+'' then (False, cs) else (False, c # cs))"

text \<open>
  \<^verbatim>\<open>int(s)\<close> for a string: white space around an optional sign and decimal digits;
  anything else is a \<^verbatim>\<open>ValueError\<close>.
\<close>

definition str_to_int :: "string \<Rightarrow> error + int" where
  "str_to_int s =
     (let (neg, ds) = split_sign (py_strip s) in
      if ds \<noteq> [] \<and> list_all is_digit ds
      then Inr (if neg then - int (digits_val ds) else int (digits_val ds))
      else Inl (ValueError ''invalid literal for int()''))"

text \<open>\<^verbatim>\<open>int(x)\<close>: a number is truncated towards zero.\<close>

fun py_int :: "pyval \<Rightarrow> error + int" where
  "py_int (PNum r) = Inr (if r \<ge> 0 then \<lfloor>r\<rfloor> else \<lceil>r\<rceil>)"
| "py_int (PBool b) = Inr (if b then 1 else 0)"
| "py_int (PStr s) = str_to_int s"
| "py_int v = Inl (TypeError ''int()'')"

text \<open>\<^verbatim>\<open>for m in x\<close>: a dictionary yields its keys.\<close>

fun py_iter :: "pyval \<Rightarrow> error + pyval list" where
  "py_iter (PDict d) = Inr (map fst d)"
| "py_iter (PList xs) = Inr xs"
| "py_iter (PStr s) = Inr (map (\<lambda>c. PStr [c]) s)"
| "py_iter v = Inl (TypeError ''not iterable'')"

text \<open>
  List indexing with an integer: a negative index counts from the end, and an index out of
  range raises \<^verbatim>\<open>IndexError\<close>.
\<close>

definition py_index :: "'a list \<Rightarrow> int \<Rightarrow> error + nat" where
  "py_index xs i =
     (let n = int (length xs) in
      if 0 \<le> i \<and> i < n then Inr (nat i)
      else if - n \<le> i \<and> i < 0 then Inr (nat (n + i))
      else Inl IndexError)"

definition py_getitem :: "'a list \<Rightarrow> int \<Rightarrow> error + 'a" where
  "py_getitem xs i = and_then (py_index xs i) (\<lambda>k. Inr (xs ! k))"

definition py_setitem :: "'a list \<Rightarrow> int \<Rightarrow> 'a \<Rightarrow> error + 'a list" where
  "py_setitem xs i v = and_then (py_index xs i) (\<lambda>k. Inr (xs[k := v]))"

text \<open>\<^verbatim>\<open>xs[idx]\<close> for a list of indices, as \<^verbatim>\<open>atoms[self.sort]\<close> takes it.\<close>

fun py_getitems :: "'a list \<Rightarrow> int list \<Rightarrow> error + 'a list" where
  "py_getitems xs [] = Inr []"
| "py_getitems xs (i # is) =
     and_then (py_getitem xs i) (\<lambda>x. and_then (py_getitems xs is) (\<lambda>ys. Inr (x # ys)))"

section \<open>Atom reordering\<close>

text \<open>
  The part of \<^verbatim>\<open>initialize\<close> that orders the atoms (lines 553 to 603). It works on the
  chemical symbols of the structure and on the \<^verbatim>\<open>setups\<close> input parameter.

  Lines 563 to 568: the keys of \<^verbatim>\<open>setups\<close> that \<^verbatim>\<open>int\<close> converts are the atoms with a
  special setup, in the order of the dictionary; a key that gives a \<^verbatim>\<open>ValueError\<close> (a
  species name) is passed over.
\<close>

fun int_keys_of :: "pyval list \<Rightarrow> error + int list" where
  "int_keys_of [] = Inr []"
| "int_keys_of (m # ms) =
     (case py_int m of
        Inr i \<Rightarrow> and_then (int_keys_of ms) (\<lambda>js. Inr (i # js))
      | Inl (ValueError msg) \<Rightarrow> int_keys_of ms
      | Inl e \<Rightarrow> Inl e)"

definition special_setups_of :: "pyval \<Rightarrow> error + int list" where
  "special_setups_of setups =
     (if py_truthy setups then and_then (py_iter setups) int_keys_of else Inr [])"

text \<open>\<^verbatim>\<open>enumerate(atoms)\<close>, as pairs of an index and the atom's symbol.\<close>

definition enumerate_atoms :: "string list \<Rightarrow> (nat \<times> string) list" where
  "enumerate_atoms syms = zip [0 ..< length syms] syms"

text \<open>
  Lines 570 to 579: the species of the other atoms in the order in which they are first
  met, and how many atoms each has.
\<close>

definition count_step ::
  "int list \<Rightarrow> string list \<times> (string \<times> nat) list \<Rightarrow> nat \<times> string
     \<Rightarrow> string list \<times> (string \<times> nat) list" where
  "count_step special_setups acc ms =
     (case (acc, ms) of ((species, symbolcount), (m, symbol)) \<Rightarrow>
        if int m \<in> set special_setups then (species, symbolcount)
        else if symbol \<notin> set species
        then (species @ [symbol], AList.update symbol 1 symbolcount)
        else (species,
              AList.update symbol
                (case map_of symbolcount symbol of Some k \<Rightarrow> k + 1 | None \<Rightarrow> 1) symbolcount))"

definition count_species :: "int list \<Rightarrow> string list \<Rightarrow> string list \<times> (string \<times> nat) list" where
  "count_species special_setups syms =
     foldl (count_step special_setups) ([], []) (enumerate_atoms syms)"

text \<open>
  Lines 582 to 591: the special atoms first, then for each species in turn its atoms in
  their original order.
\<close>

definition atoms_of_species :: "int list \<Rightarrow> string list \<Rightarrow> string \<Rightarrow> int list" where
  "atoms_of_species special_setups syms symbol =
     map int (filter (\<lambda>m. int m \<notin> set special_setups \<and> syms ! m = symbol)
       [0 ..< length syms])"

definition build_sort :: "int list \<Rightarrow> string list \<Rightarrow> string list \<Rightarrow> int list" where
  "build_sort special_setups species syms =
     special_setups @ concat (map (atoms_of_species special_setups syms) species)"

text \<open>
  Lines 592 to 594: \<^verbatim>\<open>resort\<close> starts as \<^verbatim>\<open>range(len(sort))\<close>, and the loop assigns
  \<^verbatim>\<open>resort[sort[n]] = n\<close> for each position \<^verbatim>\<open>n\<close>.
\<close>

fun resort_loop :: "int list \<Rightarrow> nat list \<Rightarrow> int list \<Rightarrow> error + int list" where
  "resort_loop srt [] res = Inr res"
| "resort_loop srt (n # ns) res =
     and_then (py_setitem res (srt ! n) (int n)) (resort_loop srt ns)"

definition build_resort :: "int list \<Rightarrow> error + int list" where
  "build_resort srt =
     resort_loop srt [0 ..< length srt] (map int [0 ..< length srt])"

text \<open>
  Lines 599 to 603: the blocks of the structure file, one block of a single atom for each
  special atom and one block for each species of the others.
\<close>

definition build_symbol_count ::
  "int list \<Rightarrow> string list \<Rightarrow> (string \<times> nat) list \<Rightarrow> string list \<Rightarrow> error + (string \<times> nat) list" where
  "build_symbol_count special_setups species symbolcount syms =
     and_then (py_getitems syms special_setups) (\<lambda>specials.
       Inr (map (\<lambda>s. (s, 1)) specials @
            map (\<lambda>s. (s, case map_of symbolcount s of Some k \<Rightarrow> k | None \<Rightarrow> 0)) species))"

record ordering =
  sort_list :: "int list"
  resort :: "int list"
  atoms_sorted :: "string list"
  symbol_count :: "(string \<times> nat) list"

definition sort_atoms :: "pyval \<Rightarrow> string list \<Rightarrow> error + ordering" where
  "sort_atoms setups syms =
     and_then (special_setups_of setups) (\<lambda>special_setups.
       let (species, symbolcount) = count_species special_setups syms;
           srt = build_sort special_setups species syms
       in and_then (build_resort srt) (\<lambda>res.
          and_then (py_getitems syms srt) (\<lambda>sorted.
          and_then (build_symbol_count special_setups species symbolcount syms) (\<lambda>blocks.
            Inr \<lparr> sort_list = srt, resort = res, atoms_sorted = sorted,
                  symbol_count = blocks \<rparr>))))"

text \<open>Every species is one unbroken run: merging adjacent equal entries leaves no repetition.\<close>

definition species_contiguous :: "string list \<Rightarrow> bool" where
  "species_contiguous syms = distinct (remdups_adj syms)"

subsection \<open>The ordering is a permutation\<close>

lemma count_step_species:
  assumes "distinct (fst acc)"
  shows "distinct (fst (count_step sp acc (m, s))) \<and>
         set (fst (count_step sp acc (m, s))) =
           set (fst acc) \<union> (if int m \<in> set sp then {} else {s})"
  using assms by (cases acc) (auto simp: count_step_def)

lemma foldl_count_step:
  assumes "distinct (fst acc)"
  shows "distinct (fst (foldl (count_step sp) acc xs)) \<and>
         set (fst (foldl (count_step sp) acc xs)) =
           set (fst acc) \<union> {s. \<exists>m. (m, s) \<in> set xs \<and> int m \<notin> set sp}"
  using assms
proof (induction xs arbitrary: acc)
  case Nil
  then show ?case by simp
next
  case (Cons x xs)
  obtain m s where x: "x = (m, s)"
    by (cases x)
  from count_step_species [OF Cons.prems, of sp m s]
  have d: "distinct (fst (count_step sp acc (m, s)))"
    and e: "set (fst (count_step sp acc (m, s))) =
           set (fst acc) \<union> (if int m \<in> set sp then {} else {s})"
    by simp_all
  from Cons.IH [OF d] e show ?case
    unfolding x by auto
qed

lemma count_species_species:
  "distinct (fst (count_species sp syms))"
  "set (fst (count_species sp syms)) = {syms ! m | m. m < length syms \<and> int m \<notin> set sp}"
proof -
  have z: "(m, s) \<in> set (enumerate_atoms syms) \<longleftrightarrow> m < length syms \<and> s = syms ! m" for m s
  proof
    assume "(m, s) \<in> set (enumerate_atoms syms)"
    then show "m < length syms \<and> s = syms ! m"
      by (auto simp: enumerate_atoms_def in_set_zip)
  next
    assume a: "m < length syms \<and> s = syms ! m"
    then have "[0 ..< length syms] ! m = m \<and> syms ! m = s \<and> m < length syms"
      by simp
    then show "(m, s) \<in> set (enumerate_atoms syms)"
      unfolding enumerate_atoms_def in_set_zip by (intro exI [of _ m]) simp
  qed
  have "distinct (fst (([], []) :: string list \<times> (string \<times> nat) list))"
    by simp
  from foldl_count_step [OF this, of sp "enumerate_atoms syms"]
  show "distinct (fst (count_species sp syms))"
    and "set (fst (count_species sp syms)) = {syms ! m | m. m < length syms \<and> int m \<notin> set sp}"
    by (auto simp: count_species_def z)
qed

lemma set_atoms_of_species:
  "set (atoms_of_species sp syms s) = {int m | m. m < length syms \<and> int m \<notin> set sp \<and> syms ! m = s}"
  by (auto simp: atoms_of_species_def)

lemma distinct_atoms_of_species: "distinct (atoms_of_species sp syms s)"
  by (simp add: atoms_of_species_def distinct_map inj_on_def)

lemma distinct_tail:
  assumes "distinct species"
  shows "distinct (concat (map (atoms_of_species sp syms) species))"
  using assms
proof (induction species)
  case Nil
  then show ?case by simp
next
  case (Cons s species)
  have "set (atoms_of_species sp syms s) \<inter> set (atoms_of_species sp syms t) = {}"
    if "t \<in> set species" for t
    using that Cons.prems by (auto simp: set_atoms_of_species)
  with Cons show ?case
    by (auto simp: distinct_atoms_of_species)
qed

lemma set_tail:
  "set (concat (map (atoms_of_species sp syms) species)) =
     {int m | m. m < length syms \<and> int m \<notin> set sp \<and> syms ! m \<in> set species}"
  by (auto simp: set_atoms_of_species)

lemma build_sort_perm:
  assumes "distinct sp" and "\<forall>m\<in>set sp. 0 \<le> m \<and> m < int (length syms)"
  shows "distinct (build_sort sp (fst (count_species sp syms)) syms)"
    and "set (build_sort sp (fst (count_species sp syms)) syms) = int ` {0 ..< length syms}"
proof -
  let ?species = "fst (count_species sp syms)"
  let ?tail = "concat (map (atoms_of_species sp syms) ?species)"
  have t: "set ?tail = {int m | m. m < length syms \<and> int m \<notin> set sp}"
    unfolding set_tail count_species_species(2) by auto
  have d: "distinct ?tail"
    by (rule distinct_tail) (rule count_species_species)
  from t d assms(1) show "distinct (build_sort sp ?species syms)"
    by (auto simp: build_sort_def)
  have "set sp \<subseteq> int ` {0 ..< length syms}"
  proof
    fix x assume "x \<in> set sp"
    with assms(2) have "0 \<le> x" "x < int (length syms)"
      by auto
    then have "x = int (nat x)" "nat x < length syms"
      by auto
    then show "x \<in> int ` {0 ..< length syms}"
      by (metis atLeastLessThan_iff imageI zero_le)
  qed
  with t show "set (build_sort sp ?species syms) = int ` {0 ..< length syms}"
    by (auto simp: build_sort_def)
qed

lemma length_build_sort:
  assumes "distinct sp" and "\<forall>m\<in>set sp. 0 \<le> m \<and> m < int (length syms)"
  shows "length (build_sort sp (fst (count_species sp syms)) syms) = length syms"
proof -
  let ?srt = "build_sort sp (fst (count_species sp syms)) syms"
  from build_sort_perm [OF assms] have "card (set ?srt) = card (int ` {0 ..< length syms})"
    and "distinct ?srt"
    by simp_all
  then show ?thesis
    by (simp add: distinct_card card_image)
qed

subsection \<open>The inverse permutation\<close>

lemma resort_loop_fold:
  assumes "\<forall>n\<in>set ns. 0 \<le> srt ! n \<and> srt ! n < int (length res)"
  shows "resort_loop srt ns res = Inr (fold (\<lambda>n r. r[nat (srt ! n) := int n]) ns res)"
  using assms
  by (induction ns arbitrary: res) (auto simp: py_setitem_def py_index_def and_then_def)

lemma length_fold_update:
  "length (fold (\<lambda>n r. r[nat (srt ! n) := int n]) ns res) = length res"
  by (induction ns arbitrary: res) auto

lemma fold_update_other:
  assumes "j \<notin> (\<lambda>n. nat (srt ! n)) ` set ns"
  shows "fold (\<lambda>n r. r[nat (srt ! n) := int n]) ns res ! j = res ! j"
  using assms
  by (induction ns arbitrary: res) auto

lemma fold_update_at:
  assumes "distinct (map (\<lambda>n. nat (srt ! n)) ns)" and "n \<in> set ns"
    and "nat (srt ! n) < length res"
  shows "fold (\<lambda>n r. r[nat (srt ! n) := int n]) ns res ! nat (srt ! n) = int n"
  using assms
proof (induction ns arbitrary: res)
  case Nil
  then show ?case by simp
next
  case (Cons k ns)
  show ?case
  proof (cases "n = k")
    case True
    with Cons.prems(1) have "nat (srt ! n) \<notin> (\<lambda>n. nat (srt ! n)) ` set ns"
      by auto
    from fold_update_other [OF this] True Cons.prems(3) show ?thesis
      by simp
  next
    case False
    with Cons.prems have "n \<in> set ns" and "distinct (map (\<lambda>n. nat (srt ! n)) ns)"
      by auto
    from Cons.IH [OF this(2) this(1)] Cons.prems(3) show ?thesis
      by simp
  qed
qed

lemma build_resort_inverse:
  assumes "distinct srt" and "\<forall>x\<in>set srt. 0 \<le> x \<and> x < int (length srt)"
  shows "\<exists>res. build_resort srt = Inr res \<and> length res = length srt \<and>
           (\<forall>i<length srt. res ! nat (srt ! i) = int i)"
proof -
  let ?ns = "[0 ..< length srt]"
  let ?init = "map int ?ns"
  let ?res = "fold (\<lambda>n r. r[nat (srt ! n) := int n]) ?ns ?init"
  from assms(2) have rng: "\<forall>n\<in>set ?ns. 0 \<le> srt ! n \<and> srt ! n < int (length ?init)"
    by simp
  have run: "build_resort srt = Inr ?res"
    unfolding build_resort_def by (rule resort_loop_fold [OF rng])
  have inj: "inj_on nat (set srt)"
  proof (rule inj_onI)
    fix x y assume "x \<in> set srt" and "y \<in> set srt" and eq: "nat x = nat y"
    with assms(2) have "0 \<le> x" and "0 \<le> y"
      by auto
    with eq show "x = y"
      by linarith
  qed
  have "map (\<lambda>n. nat (srt ! n)) ?ns = map nat srt"
    by (rule nth_equalityI) simp_all
  with assms(1) inj have dist: "distinct (map (\<lambda>n. nat (srt ! n)) ?ns)"
    by (simp add: distinct_map)
  have "?res ! nat (srt ! i) = int i" if "i < length srt" for i
  proof -
    from that assms(2) have "nat (srt ! i) < length ?init"
      by (simp add: nat_less_iff)
    from fold_update_at [OF dist _ this] that show ?thesis
      by simp
  qed
  with run show ?thesis
    by (simp add: length_fold_update)
qed

subsection \<open>The sorted structure\<close>

lemma py_getitems_in_range:
  assumes "\<forall>i\<in>set idx. 0 \<le> i \<and> i < int (length xs)"
  shows "py_getitems xs idx = Inr (map (\<lambda>i. xs ! nat i) idx)"
  using assms
  by (induction idx) (auto simp: py_getitem_def py_index_def and_then_def)

lemma symbols_of_species:
  "map (\<lambda>i. syms ! nat i) (atoms_of_species sp syms s) =
     replicate (length (atoms_of_species sp syms s)) s"
proof -
  have "map (\<lambda>i. syms ! nat i) (atoms_of_species sp syms s) =
      map (\<lambda>i. s) (atoms_of_species sp syms s)"
    by (auto simp: atoms_of_species_def)
  then show ?thesis
    by (simp add: map_replicate_const)
qed

lemma distinct_remdups_adj_replicate:
  assumes "distinct (remdups_adj ys)" and "s \<notin> set ys"
  shows "distinct (remdups_adj (replicate k s @ ys))"
proof (induction k)
  case 0
  from assms show ?case by simp
next
  case (Suc k)
  show ?case
  proof (cases k)
    case 0
    with assms show ?thesis
      by (cases ys) auto
  next
    case (Suc j)
    with Suc.IH show ?thesis
      by simp
  qed
qed

lemma contiguous_blocks:
  assumes "distinct species"
  shows "distinct (remdups_adj (concat (map (\<lambda>s. replicate (k s) s) species)))"
  using assms
proof (induction species)
  case Nil
  then show ?case by simp
next
  case (Cons s species)
  then have "s \<notin> set (concat (map (\<lambda>s. replicate (k s) s) species))"
    by auto
  with Cons show ?case
    by (simp add: distinct_remdups_adj_replicate)
qed

text \<open>
  C2, amended. When the special-setup indices are distinct indices of atoms of the
  structure, \<^verbatim>\<open>initialize\<close> builds a permutation: \<^verbatim>\<open>resort[sort[i]] == i\<close> for every
  atom index \<^verbatim>\<open>i\<close>, the special-setup indices come first, in the order in which the
  \<^verbatim>\<open>setups\<close> dictionary has them, and among the atoms after them every species is one
  unbroken run. (With no special setups that is the whole structure.)
\<close>

theorem sort_atoms_permutation:
  assumes sp: "special_setups_of setups = Inr sp" and d: "distinct sp"
    and rng: "\<forall>m\<in>set sp. 0 \<le> m \<and> m < int (length syms)"
  shows "\<exists>r. sort_atoms setups syms = Inr r \<and>
           length (sort_list r) = length syms \<and>
           (\<forall>i<length syms. resort r ! nat (sort_list r ! i) = int i) \<and>
           take (length sp) (sort_list r) = sp \<and>
           atoms_sorted r = map (\<lambda>i. syms ! nat i) (sort_list r) \<and>
           species_contiguous (drop (length sp) (atoms_sorted r))"
proof -
  let ?species = "fst (count_species sp syms)"
  let ?cnt = "snd (count_species sp syms)"
  let ?srt = "build_sort sp ?species syms"
  let ?sorted = "map (\<lambda>i. syms ! nat i) ?srt"
  note perm = build_sort_perm [OF d rng]
  have len: "length ?srt = length syms"
    by (rule length_build_sort [OF d rng])
  from perm(2) len have srt_rng: "\<forall>x\<in>set ?srt. 0 \<le> x \<and> x < int (length ?srt)"
    by auto
  from build_resort_inverse [OF perm(1) srt_rng] obtain res where
    res: "build_resort ?srt = Inr res" and inv: "\<forall>i<length ?srt. res ! nat (?srt ! i) = int i"
    by blast
  from srt_rng len have sorted: "py_getitems syms ?srt = Inr ?sorted"
    by (intro py_getitems_in_range) simp
  have "py_getitems syms sp = Inr (map (\<lambda>i. syms ! nat i) sp)"
    by (rule py_getitems_in_range [OF rng])
  then obtain blocks where blocks: "build_symbol_count sp ?species ?cnt syms = Inr blocks"
    by (simp add: build_symbol_count_def and_then_def)
  let ?r = "\<lparr> sort_list = ?srt, resort = res, atoms_sorted = ?sorted, symbol_count = blocks \<rparr>"
  have run: "sort_atoms setups syms = Inr ?r"
    by (simp add: sort_atoms_def sp res sorted blocks and_then_def split_beta Let_def)
  have "drop (length sp) ?sorted =
      concat (map (\<lambda>s. replicate (length (atoms_of_species sp syms s)) s) ?species)"
    by (simp add: build_sort_def drop_map map_concat o_def symbols_of_species)
  then have "species_contiguous (drop (length sp) ?sorted)"
    unfolding species_contiguous_def
    by (simp only: contiguous_blocks [OF count_species_species(1)])
  moreover have "take (length sp) ?srt = sp"
    by (simp add: build_sort_def)
  ultimately show ?thesis
    using run len inv by simp
qed

theorem sort_atoms_permutation_witness:
  "special_setups_of (PDict [(PStr ''Li'', PStr ''_sv''), (PNum 3, PStr ''_h''), (PStr ''1'', PStr ''_s'')])
     = Inr [3, 1] \<and>
   distinct [3, 1 :: int] \<and>
   list_all (\<lambda>m. 0 \<le> m \<and> m < int (length [''H'', ''O'', ''H'', ''C'', ''O''])) [3, 1] \<and>
   (\<exists>r. sort_atoms (PDict [(PStr ''Li'', PStr ''_sv''), (PNum 3, PStr ''_h''), (PStr ''1'', PStr ''_s'')])
          [''H'', ''O'', ''H'', ''C'', ''O''] = Inr r \<and>
        length (sort_list r) = length [''H'', ''O'', ''H'', ''C'', ''O''] \<and>
        (\<forall>i<length [''H'', ''O'', ''H'', ''C'', ''O'']. resort r ! nat (sort_list r ! i) = int i) \<and>
        take (length [3, 1 :: int]) (sort_list r) = [3, 1] \<and>
        atoms_sorted r = map (\<lambda>i. [''H'', ''O'', ''H'', ''C'', ''O''] ! nat i) (sort_list r) \<and>
        species_contiguous (drop (length [3, 1 :: int]) (atoms_sorted r)))"
proof -
  have h1: "special_setups_of
      (PDict [(PStr ''Li'', PStr ''_sv''), (PNum 3, PStr ''_h''), (PStr ''1'', PStr ''_s'')])
      = Inr [3, 1]"
    by (simp add: special_setups_of_def and_then_def str_to_int_def py_strip_def is_space_def
        is_digit_def digits_val_def digit_val_def)
  have h2: "distinct [3, 1 :: int]"
    by simp
  have h3: "\<forall>m\<in>set [3, 1 :: int]. 0 \<le> m \<and> m < int (length [''H'', ''O'', ''H'', ''C'', ''O''])"
    by simp
  from sort_atoms_permutation [OF h1 h2 h3] h1 show ?thesis
    by simp
qed

text \<open>
  C2, as the claim states it, fails with a special setup: an atom with a special setup is
  a block of its own (\<^verbatim>\<open>symbol_count\<close> gives it the count 1), outside the run of its
  species. With hydrogen, oxygen, hydrogen and a special setup for atom 0, the sorted order
  has hydrogen in two runs.
\<close>

theorem special_setup_splits_species:
  "sort_atoms (PDict [(PNum 0, PStr ''_sv'')]) [''H'', ''O'', ''H''] =
     Inr \<lparr> sort_list = [0, 1, 2], resort = [0, 1, 2], atoms_sorted = [''H'', ''O'', ''H''],
           symbol_count = [(''H'', 1), (''O'', 1), (''H'', 1)] \<rparr> \<and>
   \<not> species_contiguous [''H'', ''O'', ''H'']"
  by (simp add: sort_atoms_def special_setups_of_def count_species_def enumerate_atoms_def
      count_step_def build_sort_def atoms_of_species_def build_resort_def py_setitem_def
      py_index_def py_getitem_def build_symbol_count_def and_then_def species_contiguous_def
      Let_def)

section \<open>Process invocation\<close>

text \<open>\<^verbatim>\<open>str(n)\<close> and \<^verbatim>\<open>'%d' % n\<close>: the decimal digits of an integer.\<close>

definition digit_char :: "nat \<Rightarrow> char" where
  "digit_char d = ''0123456789'' ! d"

fun str_nat :: "nat \<Rightarrow> string" where
  "str_nat n = (if n < 10 then [digit_char n] else str_nat (n div 10) @ [digit_char (n mod 10)])"

declare str_nat.simps [simp del]

definition str_int :: "int \<Rightarrow> string" where
  "str_int i = (if i < 0 then CHR ''-'' # str_nat (nat (- i)) else str_nat (nat i))"

text \<open>
  What \<^verbatim>\<open>run\<close> touches outside the object: the environment variables, where
  \<^verbatim>\<open>sys.stderr\<close> points, and the processes it starts. \<open>launched\<close> lists, in order, the
  shell command lines given to \<^verbatim>\<open>os.system\<close> and the launcher scripts executed.
  \<open>os_system\<close> is the exit status the shell returns for a command line, \<open>read_file\<close>
  the text of a file, and \<open>exec_script\<close> the value a launcher script leaves in
  \<^verbatim>\<open>exitcode\<close> (or the exception of running it or of looking \<^verbatim>\<open>exitcode\<close> up).
\<close>

datatype stream = Inherited | Devnull | File string

record world =
  environ :: "(string \<times> string) list"
  sys_stderr :: stream
  launched :: "string list"
  os_system :: "string \<Rightarrow> int"
  read_file :: "string \<Rightarrow> error + string"
  exec_script :: "string \<Rightarrow> error + int"

definition no_command_message :: string where
  "no_command_message = ''Please set either VASP_COMMAND or VASP_SCRIPT environment variable''"

text \<open>Lines 767 to 769: \<^verbatim>\<open>sys.stderr\<close> is put back and the exit code is tested.\<close>

definition run_finish :: "world \<Rightarrow> stream \<Rightarrow> calc \<Rightarrow> int \<Rightarrow> (world \<times> calc) \<times> error option" where
  "run_finish w saved c exitcode =
     ((w\<lparr>sys_stderr := saved\<rparr>, c),
      if exitcode \<noteq> 0
      then Some (RuntimeError (''Vasp exited with exit code: '' @ str_int exitcode @ ''.  ''))
      else None)"

text \<open>Lines 750 to 755: where the diagnostic output goes.\<close>

definition redirect_stderr :: "world \<Rightarrow> pyval \<Rightarrow> world" where
  "redirect_stderr w txt =
     (if txt = PNone then w\<lparr>sys_stderr := Devnull\<rparr>
      else if txt = PStr ''-'' then w
      else (case txt of PStr f \<Rightarrow> w\<lparr>sys_stderr := File f\<rparr> | _ \<Rightarrow> w))"

text \<open>\<^verbatim>\<open>run\<close> (lines 740 to 769).\<close>

definition run :: "world \<Rightarrow> calc \<Rightarrow> (world \<times> calc) \<times> error option" where
  "run w c0 =
     (let c = (if track_output c0
               then c0\<lparr>out := Some (output_template c0 @ str_nat (run_counts c0) @ ''.out''),
                       run_counts := run_counts c0 + 1\<rparr>
               else c0\<lparr>out := Some (output_template c0 @ ''.out'')\<rparr>);
          output = (case out c of Some f \<Rightarrow> f | None \<Rightarrow> []);
          saved = sys_stderr w
      in case getitem (input_params c) ''txt'' of
           Inl e \<Rightarrow> ((w, c), Some e)
         | Inr txt \<Rightarrow>
             let w1 = redirect_stderr w txt in
             (case map_of (environ w1) ''VASP_COMMAND'' of
                Some vasp \<Rightarrow>
                  let cmd = vasp @ '' > '' @ output in
                  run_finish (w1\<lparr>launched := launched w1 @ [cmd]\<rparr>) saved c (os_system w1 cmd)
              | None \<Rightarrow>
                  (case map_of (environ w1) ''VASP_SCRIPT'' of
                     Some vasp \<Rightarrow>
                       (case read_file w1 vasp of
                          Inl e \<Rightarrow> ((w1, c), Some e)
                        | Inr script \<Rightarrow>
                            (case exec_script w1 script of
                               Inl e \<Rightarrow> ((w1\<lparr>launched := launched w1 @ [vasp]\<rparr>, c), Some e)
                             | Inr exitcode \<Rightarrow>
                                 run_finish (w1\<lparr>launched := launched w1 @ [vasp]\<rparr>) saved c
                                   exitcode))
                   | None \<Rightarrow> ((w1, c), Some (RuntimeError no_command_message)))))"

text \<open>\<^verbatim>\<open>sub in s\<close>, and \<^verbatim>\<open>s.rfind(sub) > -1\<close>: \<open>sub\<close> occurs in \<open>s\<close>.\<close>

fun starts_with :: "string \<Rightarrow> string \<Rightarrow> bool" where
  "starts_with [] s = True"
| "starts_with (p # ps) [] = False"
| "starts_with (p # ps) (c # cs) = (p = c \<and> starts_with ps cs)"

fun is_infix :: "string \<Rightarrow> string \<Rightarrow> bool" where
  "is_infix sub [] = (sub = [])"
| "is_infix sub (c # cs) = (starts_with sub (c # cs) \<or> is_infix sub cs)"

text \<open>A host with both variables set, on which the command succeeds.\<close>

definition example_world :: world where
  "example_world =
     \<lparr> environ = [(''VASP_COMMAND'', ''vasp''), (''VASP_SCRIPT'', ''run_vasp.py'')],
       sys_stderr = Inherited,
       launched = [],
       os_system = (\<lambda>cmd. 0),
       read_file = (\<lambda>f. Inl (IOError f)),
       exec_script = (\<lambda>script. Inl (KeyError ''exitcode'')) \<rparr>"

lemma redirect_stderr_same:
  "environ (redirect_stderr w txt) = environ w"
  "launched (redirect_stderr w txt) = launched w"
  "os_system (redirect_stderr w txt) = os_system w"
  by (auto simp: redirect_stderr_def split: pyval.splits)

text \<open>
  C7, as the claim states it, fails where it asks for exactly one source: with both
  variables set \<^verbatim>\<open>run\<close> does not fail; it takes the direct command, starts it, and
  returns.
\<close>

theorem run_with_both_sources:
  "snd (run example_world (init_calc ''vasp'' False [])) = None \<and>
   launched (fst (fst (run example_world (init_calc ''vasp'' False [])))) = [''vasp > vasp.out'']"
  by (simp add: run_def example_world_def init_calc_def getitem_def redirect_stderr_def
      run_finish_def Let_def)

text \<open>
  C7, amended. \<^verbatim>\<open>run\<close> takes its command from one of the two environment variables,
  \<^verbatim>\<open>VASP_COMMAND\<close> before \<^verbatim>\<open>VASP_SCRIPT\<close>. When neither is set it raises a
  \<^verbatim>\<open>RuntimeError\<close> whose message names both variables, and it has started no process.
  When \<^verbatim>\<open>VASP_COMMAND\<close> is set, whether \<^verbatim>\<open>VASP_SCRIPT\<close> is or not, it starts that
  command. (The object is one whose input parameters have the key \<^verbatim>\<open>txt\<close>, as every
  constructed one has.)
\<close>

theorem run_command_source:
  "(getitem (input_params c) ''txt'' = Inr txt \<and>
    map_of (environ w) ''VASP_COMMAND'' = None \<and> map_of (environ w) ''VASP_SCRIPT'' = None \<longrightarrow>
      snd (run w c) = Some (RuntimeError no_command_message) \<and>
      launched (fst (fst (run w c))) = launched w \<and>
      is_infix ''VASP_COMMAND'' no_command_message \<and>
      is_infix ''VASP_SCRIPT'' no_command_message) \<and>
   (getitem (input_params c) ''txt'' = Inr txt \<and>
    map_of (environ w) ''VASP_COMMAND'' = Some vasp \<longrightarrow>
      (\<exists>output. out (snd (fst (run w c))) = Some output \<and>
         launched (fst (fst (run w c))) = launched w @ [vasp @ '' > '' @ output]))"
proof -
  have names: "is_infix ''VASP_COMMAND'' no_command_message \<and>
      is_infix ''VASP_SCRIPT'' no_command_message"
    by (simp add: no_command_message_def)
  have neither: "snd (run w c) = Some (RuntimeError no_command_message) \<and>
      launched (fst (fst (run w c))) = launched w"
    if "getitem (input_params c) ''txt'' = Inr txt"
      and "map_of (environ w) ''VASP_COMMAND'' = None"
      and "map_of (environ w) ''VASP_SCRIPT'' = None"
    using that by (simp add: run_def Let_def redirect_stderr_same)
  have command: "\<exists>output. out (snd (fst (run w c))) = Some output \<and>
         launched (fst (fst (run w c))) = launched w @ [vasp @ '' > '' @ output]"
    if "getitem (input_params c) ''txt'' = Inr txt"
      and "map_of (environ w) ''VASP_COMMAND'' = Some vasp"
    using that by (simp add: run_def Let_def redirect_stderr_same run_finish_def)
  from names neither command show ?thesis
    by blast
qed

theorem run_command_source_witness:
  "getitem (input_params (init_calc ''vasp'' False [])) ''txt'' = Inr (PStr ''-'') \<and>
   map_of (environ (example_world\<lparr>environ := []\<rparr>)) ''VASP_COMMAND'' = None \<and>
   map_of (environ (example_world\<lparr>environ := []\<rparr>)) ''VASP_SCRIPT'' = None \<and>
   snd (run (example_world\<lparr>environ := []\<rparr>) (init_calc ''vasp'' False [])) =
     Some (RuntimeError no_command_message) \<and>
   launched (fst (fst (run (example_world\<lparr>environ := []\<rparr>) (init_calc ''vasp'' False [])))) =
     launched (example_world\<lparr>environ := []\<rparr>) \<and>
   map_of (environ example_world) ''VASP_COMMAND'' = Some ''vasp'' \<and>
   (\<exists>output. out (snd (fst (run example_world (init_calc ''vasp'' False [])))) = Some output \<and>
      launched (fst (fst (run example_world (init_calc ''vasp'' False [])))) =
        launched example_world @ [''vasp'' @ '' > '' @ output])"
proof -
  have t: "getitem (input_params (init_calc ''vasp'' False [])) ''txt'' = Inr (PStr ''-'')"
    by (simp add: init_calc_def getitem_def)
  have e: "map_of (environ (example_world\<lparr>environ := []\<rparr>)) ''VASP_COMMAND'' = None"
    "map_of (environ (example_world\<lparr>environ := []\<rparr>)) ''VASP_SCRIPT'' = None"
    by simp_all
  have v: "map_of (environ example_world) ''VASP_COMMAND'' = Some ''vasp''"
    by (simp add: example_world_def)
  from run_command_source [of "init_calc ''vasp'' False []" "PStr ''-''"
      "example_world\<lparr>environ := []\<rparr>" "''vasp''"]
    run_command_source [of "init_calc ''vasp'' False []" "PStr ''-''" example_world "''vasp''"]
    t e v
  show ?thesis
    by simp
qed

section \<open>Reading and writing numbers in text\<close>

text \<open>\<^verbatim>\<open>s.split()\<close>: the words between runs of white space.\<close>

fun split_ws_from :: "string \<Rightarrow> string \<Rightarrow> string list" where
  "split_ws_from word [] = (if word = [] then [] else [word])"
| "split_ws_from word (c # cs) =
     (if is_space c then (if word = [] then split_ws_from [] cs else word # split_ws_from [] cs)
      else split_ws_from (word @ [c]) cs)"

definition py_split_ws :: "string \<Rightarrow> string list" where
  "py_split_ws s = split_ws_from [] s"

text \<open>\<^verbatim>\<open>s.split(sep)\<close> for a separator of one character: at least one piece.\<close>

fun split_from :: "char \<Rightarrow> string \<Rightarrow> string \<Rightarrow> string list" where
  "split_from sep piece [] = [piece]"
| "split_from sep piece (c # cs) =
     (if c = sep then piece # split_from sep [] cs else split_from sep (piece @ [c]) cs)"

definition py_split :: "char \<Rightarrow> string \<Rightarrow> string list" where
  "py_split sep s = split_from sep [] s"

text \<open>
  \<^verbatim>\<open>s.replace(old, new)\<close>: the occurrences of \<open>old\<close> from left to right, not
  overlapping. (An empty \<open>old\<close> puts \<open>new\<close> around every character.)
\<close>

function py_replace :: "string \<Rightarrow> string \<Rightarrow> string \<Rightarrow> string" where
  "py_replace old new s =
     (if old = [] then new @ concat (map (\<lambda>c. c # new) s)
      else if s = [] then []
      else if starts_with old s then new @ py_replace old new (drop (length old) s)
      else hd s # py_replace old new (tl s))"
  by pat_completeness auto
termination
  by (relation "measure (\<lambda>(old, new, s). length s)") auto

declare py_replace.simps [simp del]

text \<open>
  \<^verbatim>\<open>float(s)\<close>: white space around an optional sign, digits with an optional point,
  and an optional exponent. The result is the rational number the literal denotes; the
  rounding to a double, and the literals \<^verbatim>\<open>inf\<close> and \<^verbatim>\<open>nan\<close>, are outside the model.
\<close>

definition parse_exponent :: "string \<Rightarrow> int option" where
  "parse_exponent s =
     (case s of
        [] \<Rightarrow> Some 0
      | c # cs \<Rightarrow>
          if c = CHR ''e'' \<or> c = CHR ''E'' then
            (let (neg, ds) = split_sign cs in
             if ds \<noteq> [] \<and> list_all is_digit ds
             then Some (if neg then - int (digits_val ds) else int (digits_val ds))
             else None)
          else None)"

definition scale10 :: "rat \<Rightarrow> int \<Rightarrow> rat" where
  "scale10 x e = (if e \<ge> 0 then x * 10 ^ nat e else x / 10 ^ nat (- e))"

definition py_float :: "string \<Rightarrow> error + rat" where
  "py_float s =
     (let (neg, u) = split_sign (py_strip s);
          ip = takeWhile is_digit u;
          r1 = dropWhile is_digit u;
          (fp, r2) = (case r1 of
                        [] \<Rightarrow> ([], [])
                      | c # r \<Rightarrow>
                          if c = CHR ''.'' then (takeWhile is_digit r, dropWhile is_digit r)
                          else ([], r1))
      in if ip = [] \<and> fp = [] then Inl (ValueError ''could not convert string to float'')
         else (case parse_exponent r2 of
                 None \<Rightarrow> Inl (ValueError ''could not convert string to float'')
               | Some e \<Rightarrow>
                   Inr (scale10 (if neg then - of_nat (digits_val (ip @ fp))
                                 else of_nat (digits_val (ip @ fp)))
                          (e - int (length fp)))))"

text \<open>A double is finite when its magnitude is below \<open>2 ^ 1024\<close>.\<close>

definition finite_double :: "rat \<Rightarrow> bool" where
  "finite_double x = (\<bar>x\<bar> < 2 ^ 1024)"

text \<open>\<^verbatim>\<open>'%.4f' % x\<close> and its kin: \<open>d\<close> digits after the point, rounded half to even.\<close>

definition round_half_even :: "rat \<Rightarrow> int" where
  "round_half_even y =
     (let f = \<lfloor>y\<rfloor>; r = y - of_int f in
      if r < 1 / 2 then f else if r > 1 / 2 then f + 1 else if even f then f else f + 1)"

definition fmt_fixed :: "nat \<Rightarrow> rat \<Rightarrow> string" where
  "fmt_fixed d x =
     (let n = nat (round_half_even (\<bar>x\<bar> * 10 ^ d));
          frac = str_nat (n mod 10 ^ d)
      in (if x < 0 then ''-'' else []) @ str_nat (n div 10 ^ d) @
         (if d = 0 then [] else ''.'' @ replicate (d - length frac) (CHR ''0'') @ frac))"

section \<open>Magnetic moments in the control file\<close>

text \<open>
  The run-length loop of \<^verbatim>\<open>write_incar\<close> (lines 1149 to 1154, and 1099 to 1104 for a
  \<^verbatim>\<open>magmom\<close> list parameter): a list of pairs of a count and a value; a value equal to
  the one before it raises the count of the last pair.
\<close>

fun run_length_loop :: "rat \<Rightarrow> (int \<times> rat) list \<Rightarrow> rat list \<Rightarrow> (int \<times> rat) list" where
  "run_length_loop prev acc [] = acc"
| "run_length_loop prev acc (x # xs) =
     (if x = prev
      then run_length_loop x (butlast acc @ [(fst (last acc) + 1, snd (last acc))]) xs
      else run_length_loop x (acc @ [(1, x)]) xs)"

definition run_lengths :: "rat list \<Rightarrow> error + (int \<times> rat) list" where
  "run_lengths magmom =
     (case magmom of
        [] \<Rightarrow> Inl IndexError
      | x # xs \<Rightarrow> Inr (run_length_loop x [(1, x)] xs))"

text \<open>Lines 1156 and 1105: one \<^verbatim>\<open>'%i*%.4f '\<close> for each pair.\<close>

definition magmom_tokens :: "rat list \<Rightarrow> error + string" where
  "magmom_tokens magmom =
     and_then (run_lengths magmom) (\<lambda>pairs.
       Inr (concat (map (\<lambda>(k, m). str_int k @ ''*'' @ fmt_fixed 4 m @ '' '') pairs)))"

text \<open>
  The end of \<^verbatim>\<open>write_incar\<close> (lines 1141 to 1157): what it appends to the file for a
  spin-polarised structure when no \<^verbatim>\<open>magmom\<close> list parameter was written. The initial
  moments are taken in sorted order.
\<close>

definition write_magmom :: "calc \<Rightarrow> bool \<Rightarrow> int list \<Rightarrow> atoms \<Rightarrow> error + string" where
  "write_magmom c magmom_written srt a =
     and_then (attr ''spinpol'' (spinpol c)) (\<lambda>sp.
       if py_truthy sp \<and> \<not> magmom_written then
         and_then (getitem (int_params c) ''ispin'') (\<lambda>ispin.
         and_then (py_getitems (initial_magmoms a) srt) (\<lambda>magmom.
         and_then (magmom_tokens magmom) (\<lambda>tokens.
           Inr ((if \<not> py_truthy ispin then '' ISPIN = 2'' @ [CHR 0x0A] else []) @
                '' MAGMOM = '' @ tokens @ [CHR 0x0A]))))
       else Inr [])"

text \<open>
  \<^verbatim>\<open>read_incar\<close>, lines 1469 to 1472: a line is split into words after \<^verbatim>\<open>*\<close>,
  \<^verbatim>\<open>=\<close> and \<^verbatim>\<open>#\<close> have been set apart.
\<close>

definition incar_words :: "string \<Rightarrow> string list" where
  "incar_words line =
     py_split_ws (py_replace ''#'' ''# '' (py_replace ''='' '' = '' (py_replace ''*'' '' * '' line)))"

text \<open>
  Lines 1515 to 1527: the values after the key and the equals sign. A word \<^verbatim>\<open>*\<close> takes
  the value before it as a count and repeats the value after it that many times.
\<close>

fun magmom_loop :: "string list \<Rightarrow> rat list \<Rightarrow> error + rat list" where
  "magmom_loop [] acc = Inr acc"
| "magmom_loop (w # ws) acc =
     (if w = ''#'' \<or> w = ''!'' then Inr acc
      else if w = ''*'' then
        (if acc = [] then Inl IndexError
         else
           and_then (py_int (PNum (last acc))) (\<lambda>b.
             if b \<le> 0 then (case ws of [] \<Rightarrow> Inr (butlast acc) | v # vs \<Rightarrow> magmom_loop vs (butlast acc))
             else
               (case ws of
                  [] \<Rightarrow> Inl IndexError
                | v # vs \<Rightarrow>
                    and_then (py_float v) (\<lambda>x.
                      magmom_loop vs (butlast acc @ replicate (nat b) x)))))
      else and_then (py_float w) (\<lambda>x. magmom_loop ws (acc @ [x])))"

text \<open>
  The \<^verbatim>\<open>magmom\<close> branch for one line; an \<^verbatim>\<open>IndexError\<close> becomes the
  \<^verbatim>\<open>IOError\<close> of lines 1544 and 1545.
\<close>

definition read_magmom :: "string \<Rightarrow> error + rat list" where
  "read_magmom line =
     (case magmom_loop (drop 2 (incar_words line)) [] of
        Inl IndexError \<Rightarrow> Inl (IOError (''Value missing for keyword '' @ [CHR 0x22] @ ''magmom'' @ [CHR 0x22] @ ''.''))
      | r \<Rightarrow> r)"

subsection \<open>The example of the run-length encoding\<close>

lemmas float_defs = py_float_def py_strip_def is_space_def is_digit_def parse_exponent_def
  scale10_def digits_val_def digit_val_def

lemma py_float_small:
  "py_float ''1.0000'' = Inr 1" "py_float ''2.0000'' = Inr 2"
  "py_float ''3'' = Inr 3" "py_float ''1'' = Inr 1"
  by (simp_all add: float_defs)

lemma replicate_small: "replicate (nat 3) x = [x, x, x]" "replicate (nat 1) x = [x]"
  "replicate 3 x = [x, x, x]"
  by (simp_all add: eval_nat_numeral)

lemma str_nat_small: "str_nat 0 = ''0''" "str_nat (Suc 0) = ''1''" "str_nat 2 = ''2''" "str_nat 3 = ''3''"
  by (subst str_nat.simps, simp add: digit_char_def)+

lemma fmt_fixed_small: "fmt_fixed 4 1 = ''1.0000''" "fmt_fixed 4 2 = ''2.0000''"
  by (simp_all add: fmt_fixed_def round_half_even_def Let_def str_nat_small replicate_small)

lemma run_lengths_example: "run_lengths [1, 1, 1, 2] = Inr [(3, 1), (1, 2)]"
  by (simp add: run_lengths_def)

lemma magmom_tokens_example: "magmom_tokens [1, 1, 1, 2] = Inr ''3*1.0000 1*2.0000 ''"
  by (simp add: magmom_tokens_def run_lengths_example and_then_def str_int_def str_nat_small
      fmt_fixed_small)

lemma incar_words_example:
  "incar_words ('' MAGMOM = 3*1.0000 1*2.0000 '' @ [CHR 0x0A]) =
     [''MAGMOM'', ''='', ''3'', ''*'', ''1.0000'', ''1'', ''*'', ''2.0000'']"
  by code_simp

lemma magmom_loop_example:
  "magmom_loop [''3'', ''*'', ''1.0000'', ''1'', ''*'', ''2.0000''] [] = Inr [1, 1, 1, 2]"
  by (simp add: py_float_small and_then_def replicate_small)

lemma read_magmom_example:
  "read_magmom ('' MAGMOM = 3*1.0000 1*2.0000 '' @ [CHR 0x0A]) = Inr [1, 1, 1, 2]"
proof -
  have "drop 2 [''MAGMOM'', ''='', ''3'', ''*'', ''1.0000'', ''1'', ''*'', ''2.0000''] =
      [''3'', ''*'', ''1.0000'', ''1'', ''*'', ''2.0000'']"
    by simp
  then show ?thesis
    by (simp only: read_magmom_def incar_words_example magmom_loop_example sum.case)
qed

text \<open>A structure of four atoms with the initial moments 1, 1, 1, 2, already in sorted order.\<close>

definition magnetic_atoms :: atoms where
  "magnetic_atoms =
     \<lparr> symbols = [''Fe'', ''Fe'', ''Fe'', ''Ni''],
       atom_positions = [(0, 0, 0), (2, 0, 0), (0, 2, 0), (2, 2, 0)],
       cell = [(4, 0, 0), (0, 4, 0), (0, 0, 4)],
       pbc = (True, True, True),
       initial_magmoms = [1, 1, 1, 2],
       initial_charges = [0, 0, 0, 0] \<rparr>"

lemma write_magmom_example:
  "write_magmom (example_calc\<lparr>spinpol := Some (PBool True)\<rparr>) False [0, 1, 2, 3] magnetic_atoms =
     Inr ('' ISPIN = 2'' @ [CHR 0x0A] @ '' MAGMOM = 3*1.0000 1*2.0000 '' @ [CHR 0x0A])"
proof -
  have i: "getitem (int_params example_calc) ''ispin'' = Inr PNone"
    by (simp add: example_calc_def init_calc_def getitem_def map_of_new_dict int_keys_def)
  have g: "py_getitems (initial_magmoms magnetic_atoms) [0, 1, 2, 3] = Inr [1, 1, 1, 2]"
    by (simp add: magnetic_atoms_def py_getitem_def py_index_def and_then_def)
  show ?thesis
    by (simp add: write_magmom_def i g magmom_tokens_example and_then_def attr_def
        del: py_getitems.simps)
qed

text \<open>
  C3. The writer encodes the moments 1.0, 1.0, 1.0, 2.0 as \<^verbatim>\<open>3*1.0000 1*2.0000\<close> (each
  token followed by a blank), both as bare tokens and in the \<^verbatim>\<open>MAGMOM\<close> line that
  \<^verbatim>\<open>write_incar\<close> appends for a spin-polarised structure; the reader splits that line
  into the words shown and decodes them to the original list.
\<close>

theorem magmom_round_trip:
  "magmom_tokens [1, 1, 1, 2] = Inr ''3*1.0000 1*2.0000 '' \<and>
   write_magmom (example_calc\<lparr>spinpol := Some (PBool True)\<rparr>) False [0, 1, 2, 3] magnetic_atoms =
     Inr ('' ISPIN = 2'' @ [CHR 0x0A] @ '' MAGMOM = 3*1.0000 1*2.0000 '' @ [CHR 0x0A]) \<and>
   incar_words ('' MAGMOM = 3*1.0000 1*2.0000 '' @ [CHR 0x0A]) =
     [''MAGMOM'', ''='', ''3'', ''*'', ''1.0000'', ''1'', ''*'', ''2.0000''] \<and>
   read_magmom ('' MAGMOM = 3*1.0000 1*2.0000 '' @ [CHR 0x0A]) = Inr [1, 1, 1, 2]"
  using magmom_tokens_example write_magmom_example incar_words_example read_magmom_example
  by (intro conjI)

section \<open>Convergence\<close>

text \<open>
  Python's \<^verbatim>\<open>xs < ys\<close> on lists: the first position where the two differ decides; without
  one, the shorter list is the smaller.
\<close>

fun py_list_lt :: "rat list \<Rightarrow> rat list \<Rightarrow> bool" where
  "py_list_lt [] [] = False"
| "py_list_lt [] (y # ys) = True"
| "py_list_lt (x # xs) [] = False"
| "py_list_lt (x # xs) (y # ys) = (if x = y then py_list_lt xs ys else x < y)"

text \<open>
  Lines 1357 to 1361 of \<^verbatim>\<open>read_convergence\<close>: a token with no \<^verbatim>\<open>e\<close> in it is split at
  its minus signs, an \<^verbatim>\<open>e\<close> is put in front of the last piece, and the pieces are joined
  again with \<^verbatim>\<open>-e\<close> turned into \<^verbatim>\<open>e-\<close>.
\<close>

definition repair_exponent :: "string \<Rightarrow> string" where
  "repair_exponent b =
     (if \<not> is_infix ''e'' (str_lower b) then
        (let bsplit = py_split CHR ''-'' b;
             bsplit' = butlast bsplit @ [''e'' @ last bsplit]
         in py_replace ''-e'' ''e-'' (py_join ''-'' bsplit'))
      else b)"

text \<open>
  Lines 1350 to 1362: the two numbers of a line \<^verbatim>\<open>total energy-change\<close>, the first before
  the parenthesis and the second inside it (the slice \<^verbatim>\<open>[0:-2]\<close> drops the closing
  parenthesis and the end of the line).
\<close>

definition energy_change_deltas :: "string \<Rightarrow> error + rat \<times> rat" where
  "energy_change_deltas line =
     and_then (py_getitem (py_split CHR '':'' line) 1) (\<lambda>rest.
     and_then (py_getitem (py_split CHR ''('' rest) 0) (\<lambda>first.
     and_then (py_float first) (\<lambda>a.
     and_then (py_getitem (py_split CHR ''('' rest) 1) (\<lambda>second.
     and_then (py_float (repair_exponent (take (length second - 2) second))) (\<lambda>b.
       Inr (a, b))))))"

text \<open>
  The body of the loop over the lines of the report (lines 1343 to 1367). The state is the
  threshold \<^verbatim>\<open>ediff\<close>, unbound until a line sets it, and \<^verbatim>\<open>converged\<close>.
\<close>

definition convergence_line :: "rat option \<times> pyval \<Rightarrow> string \<Rightarrow> error + rat option \<times> pyval" where
  "convergence_line st line =
     (case st of (ediff0, conv) \<Rightarrow>
        and_then
          (if is_infix ''EDIFF  '' line
           then and_then (py_getitem (py_split_ws line) 2) (\<lambda>w.
                and_then (py_float w) (\<lambda>e. Inr (Some e)))
           else Inr ediff0) (\<lambda>ediff.
        if is_infix ''total energy-change'' line then
          (if is_infix ''MIXING'' line then Inr (ediff, conv)
           else
             and_then (energy_change_deltas line) (\<lambda>(a, b).
             and_then (case ediff of None \<Rightarrow> Inl (NameError ''ediff'') | Some e \<Rightarrow> Inr e) (\<lambda>e.
               Inr (ediff, PBool (py_list_lt [\<bar>a\<bar>, \<bar>b\<bar>] [e, e])))))
        else Inr (ediff, conv)))"

fun convergence_loop :: "string list \<Rightarrow> rat option \<times> pyval \<Rightarrow> error + rat option \<times> pyval" where
  "convergence_loop [] st = Inr st"
| "convergence_loop (line # rest) st = and_then (convergence_line st line) (convergence_loop rest)"

text \<open>\<^verbatim>\<open>read_relaxed\<close> (lines 1450 to 1454).\<close>

definition read_relaxed :: "string list \<Rightarrow> bool" where
  "read_relaxed outcar = list_ex (is_infix ''reached required accuracy'') outcar"

text \<open>\<^verbatim>\<open>read_convergence\<close> (lines 1334 to 1376), on the lines of the report.\<close>

definition read_convergence :: "calc \<Rightarrow> string list \<Rightarrow> error + pyval" where
  "read_convergence c outcar =
     and_then (convergence_loop outcar (None, PNone)) (\<lambda>(ediff, conv).
     and_then (getitem (int_params c) ''ibrion'') (\<lambda>ibrion.
       if ibrion \<in> set [PNum 1, PNum 2, PNum 3] then
         and_then (getitem (int_params c) ''nsw'') (\<lambda>nsw.
           if nsw \<notin> set [PNum 0] then Inr (PBool (read_relaxed outcar)) else Inr conv)
       else Inr conv))"

end
